theory Spec2Isabelle
  imports Main "HOL-Library.Word"
begin

section \<open>Python string formatting used by the plugins\<close>

text \<open>
  The plugins of \<^verbatim>\<open>vadinfo.py\<close> format numbers with Python's \<^verbatim>\<open>hex()\<close> and
  with the format specifications \<^verbatim>\<open>{:x}\<close>, \<^verbatim>\<open>{:08x}\<close>, \<^verbatim>\<open>{:6}\<close>, \<^verbatim>\<open>{:10}\<close>
  and \<^verbatim>\<open>{:4}\<close>. Python integers are unbounded, so they are \<open>int\<close> here.
\<close>

definition hexdigits :: string where
  "hexdigits = ''0123456789abcdef''"

function hex_nat :: "nat \<Rightarrow> string" where
  "hex_nat n = (if n < 16 then [hexdigits ! n]
                else hex_nat (n div 16) @ [hexdigits ! (n mod 16)])"
  by pat_completeness auto
termination
  by (relation "measure id") auto

declare hex_nat.simps [simp del]

function dec_nat :: "nat \<Rightarrow> string" where
  "dec_nat n = (if n < 10 then [hexdigits ! n]
                else dec_nat (n div 10) @ [hexdigits ! (n mod 10)])"
  by pat_completeness auto
termination
  by (relation "measure id") auto

declare dec_nat.simps [simp del]

text \<open>\<^verbatim>\<open>hex(n)\<close>: \<^verbatim>\<open>0x\<close> and the lowercase digits, a leading \<^verbatim>\<open>-\<close> for a negative number.\<close>

definition py_hex :: "int \<Rightarrow> string" where
  "py_hex n = (if n < 0 then ''-0x'' @ hex_nat (nat (- n)) else ''0x'' @ hex_nat (nat n))"

text \<open>\<^verbatim>\<open>"{0:x}".format(n)\<close>\<close>

definition format_x :: "int \<Rightarrow> string" where
  "format_x n = (if n < 0 then ''-'' @ hex_nat (nat (- n)) else hex_nat (nat n))"

text \<open>\<^verbatim>\<open>"{0:08x}".format(n)\<close>: zero padding goes between the sign and the digits, the
  width of 8 counts the sign.\<close>

definition format_08x :: "int \<Rightarrow> string" where
  "format_08x n =
     (let sign = (if n < 0 then ''-'' else '''');
          digits = hex_nat (nat \<bar>n\<bar>)
      in sign @ replicate (8 - length sign - length digits) (CHR ''0'') @ digits)"

text \<open>\<^verbatim>\<open>"{0:6}".format(n)\<close> and \<^verbatim>\<open>"{0:10}".format(n)\<close>: a number is right-aligned.\<close>

definition format_int_width :: "nat \<Rightarrow> int \<Rightarrow> string" where
  "format_int_width w n =
     (let s = (if n < 0 then ''-'' @ dec_nat (nat (- n)) else dec_nat (nat n))
      in replicate (w - length s) (CHR '' '') @ s)"

text \<open>\<^verbatim>\<open>"{0:4}".format(s)\<close>: a string is left-aligned.\<close>

definition format_str_width :: "nat \<Rightarrow> string \<Rightarrow> string" where
  "format_str_width w s = s @ replicate (w - length s) (CHR '' '')"

text \<open>Reading a \<^verbatim>\<open>hex()\<close> result back, to state that it carries the number.\<close>

definition hexdigit_val :: "char \<Rightarrow> nat" where
  "hexdigit_val c = length (takeWhile (\<lambda>d. d \<noteq> c) hexdigits)"

definition hex_val :: "string \<Rightarrow> nat" where
  "hex_val s = foldl (\<lambda>a c. 16 * a + hexdigit_val c) 0 s"

definition int_of_py_hex :: "string \<Rightarrow> int" where
  "int_of_py_hex s =
     (if take 3 s = ''-0x'' then - int (hex_val (drop 3 s))
      else int (hex_val (drop 2 s)))"

section \<open>VADInfo: the flag tables\<close>

datatype error =
    PluginError string
  | NameError string
  | AttributeError string
  | IOError string

text \<open>\<^verbatim>\<open>dict(enumerate(xs))\<close>: the dictionary from each index to its element.\<close>

definition dict_enumerate :: "'a list \<Rightarrow> (int \<rightharpoonup> 'a)" where
  "dict_enumerate xs = map_of (zip (map int [0..<length xs]) xs)"

text \<open>\<^verbatim>\<open>d.get(k, default)\<close>\<close>

definition dict_get :: "('k \<rightharpoonup> 'v) \<Rightarrow> 'k \<Rightarrow> 'v \<Rightarrow> 'v" where
  "dict_get d k dflt = (case d k of None \<Rightarrow> dflt | Some v \<Rightarrow> v)"

definition PROTECT_FLAGS_list :: "string list" where
  "PROTECT_FLAGS_list = [
     ''PAGE_NOACCESS'',
     ''PAGE_READONLY'',
     ''PAGE_EXECUTE'',
     ''PAGE_EXECUTE_READ'',
     ''PAGE_READWRITE'',
     ''PAGE_WRITECOPY'',
     ''PAGE_EXECUTE_READWRITE'',
     ''PAGE_EXECUTE_WRITECOPY'',
     ''PAGE_NOACCESS'',
     ''PAGE_NOCACHE | PAGE_READONLY'',
     ''PAGE_NOCACHE | PAGE_EXECUTE'',
     ''PAGE_NOCACHE | PAGE_EXECUTE_READ'',
     ''PAGE_NOCACHE | PAGE_READWRITE'',
     ''PAGE_NOCACHE | PAGE_WRITECOPY'',
     ''PAGE_NOCACHE | PAGE_EXECUTE_READWRITE'',
     ''PAGE_NOCACHE | PAGE_EXECUTE_WRITECOPY'',
     ''PAGE_NOACCESS'',
     ''PAGE_GUARD | PAGE_READONLY'',
     ''PAGE_GUARD | PAGE_EXECUTE'',
     ''PAGE_GUARD | PAGE_EXECUTE_READ'',
     ''PAGE_GUARD | PAGE_READWRITE'',
     ''PAGE_GUARD | PAGE_WRITECOPY'',
     ''PAGE_GUARD | PAGE_EXECUTE_READWRITE'',
     ''PAGE_GUARD | PAGE_EXECUTE_WRITECOPY'',
     ''PAGE_NOACCESS'',
     ''PAGE_WRITECOMBINE | PAGE_READONLY'',
     ''PAGE_WRITECOMBINE | PAGE_EXECUTE'',
     ''PAGE_WRITECOMBINE | PAGE_EXECUTE_READ'',
     ''PAGE_WRITECOMBINE | PAGE_READWRITE'',
     ''PAGE_WRITECOMBINE | PAGE_WRITECOPY'',
     ''PAGE_WRITECOMBINE | PAGE_EXECUTE_READWRITE'',
     ''PAGE_WRITECOMBINE | PAGE_EXECUTE_WRITECOPY'']"

definition PROTECT_FLAGS :: "int \<rightharpoonup> string" where
  "PROTECT_FLAGS = dict_enumerate PROTECT_FLAGS_list"

definition MI_VAD_TYPE_list :: "string list" where
  "MI_VAD_TYPE_list = [
     ''VadNone'',
     ''VadDevicePhysicalMemory'',
     ''VadImageMap'',
     ''VadAwe'',
     ''VadWriteWatch'',
     ''VadLargePages'',
     ''VadRotatePhysical'',
     ''VadLargePageSection'']"

definition MI_VAD_TYPE :: "int \<rightharpoonup> string" where
  "MI_VAD_TYPE = dict_enumerate MI_VAD_TYPE_list"

text \<open>
  The two lookups of \<^verbatim>\<open>write_vad_short\<close>:
  \<^verbatim>\<open>self.PROTECT_FLAGS.get(Protection.v(), hex(Protection))\<close> and
  \<^verbatim>\<open>self.MI_VAD_TYPE.get(VadType.v(), hex(VadType))\<close>.
\<close>

definition decode_protection :: "int \<Rightarrow> string" where
  "decode_protection code = dict_get PROTECT_FLAGS code (py_hex code)"

definition decode_vad_type :: "int \<Rightarrow> string" where
  "decode_vad_type code = dict_get MI_VAD_TYPE code (py_hex code)"

section \<open>The data model\<close>

text \<open>
  The objects the plugins read are views over the memory image. The fields the plugins
  use are the fields of the records below; \<^verbatim>\<open>get_start()\<close> and \<^verbatim>\<open>get_end()\<close> are the
  values those methods return. An attribute that a record layout may lack (the access
  raises \<^verbatim>\<open>AttributeError\<close>, or \<^verbatim>\<open>hasattr\<close> is false) is an \<open>option\<close>.
\<close>

record vad_flags =
  flags_str :: string
  Protection :: int
  PrivateMemory :: int
  VadType :: "int option"

record file_object =
  fo_obj_offset :: int
  fo_FileName_Buffer :: int
  fo_FileName :: string

text \<open>A pointer object: its value \<^verbatim>\<open>v()\<close> and what \<^verbatim>\<open>dereference()\<close> gives, \<open>None\<close>
  when the address does not resolve.\<close>

datatype 'a pointer = Pointer (ptr_v: int) (ptr_deref: "'a option")

record control_area =
  ca_obj_offset :: int
  Segment :: int
  DereferenceList_Flink :: int
  DereferenceList_Blink :: int
  NumberOfSectionReferences :: int
  NumberOfPfnReferences :: int
  NumberOfMappedViews :: int
  NumberOfUserReferences :: int
  WaitingForDeletion :: int
  ca_flags_str :: string
  FilePointer :: "file_object pointer"

record vad_long =
  FirstPrototypePte :: int
  LastContiguousPte :: int
  flags2_str :: string

record vad =
  obj_offset :: int
  obj_type :: string
  Tag :: string
  get_start :: int
  get_end :: int
  Parent :: int
  LeftChild :: int
  RightChild :: int
  VadFlags :: vad_flags
  ControlArea :: "control_area pointer option"
  long_fields :: "vad_long option"

text \<open>
  Modelled from the spec: the truth value of a pointer object (the pointer class is
  outside this file). Section 4.3: a reference counts when it is present and
  resolvable, and a resolvable-but-zero reference is equivalent to absent.
\<close>

definition pointer_truth :: "'a pointer \<Rightarrow> bool" where
  "pointer_truth p = (case ptr_deref p of None \<Rightarrow> False | Some _ \<Rightarrow> ptr_v p \<noteq> 0)"

text \<open>
  The address space of a process: \<^verbatim>\<open>vtop\<close> translates a virtual address to an offset
  of the image, or to \<^verbatim>\<open>None\<close>; \<open>phys\<close> is the byte of the image at an offset.
  \<open>zread_negative\<close> is what the bulk reader of the address space returns when it is
  asked for a negative number of bytes, from the address and the length: neither the
  source nor the spec says what that is, so it is a parameter.
\<close>

record address_space =
  vtop :: "int \<Rightarrow> int option"
  phys :: "int \<Rightarrow> 8 word"
  zread_negative :: "int \<Rightarrow> int \<Rightarrow> 8 word list"

text \<open>
  Modelled from the spec: the zero-padding bulk reader \<^verbatim>\<open>zread(vaddr, length)\<close> of the
  address space (the address-space classes are outside this file). Section 6: it reads
  \<^verbatim>\<open>length\<close> bytes from \<^verbatim>\<open>vaddr\<close> on, through the translation of the process, and
  what is not resident reads as zero bytes, so that the result has exactly
  \<^verbatim>\<open>length\<close> bytes and the read does not fail. The spec gives no result for a negative
  length, where no byte string has that length: the result is then the parameter
  \<open>zread_negative\<close> of the address space.
\<close>

definition zread :: "address_space \<Rightarrow> int \<Rightarrow> int \<Rightarrow> 8 word list" where
  "zread space vaddr len =
     (if 0 \<le> len
      then map (\<lambda>a. case vtop space a of None \<Rightarrow> 0 | Some p \<Rightarrow> phys space p)
             [vaddr..vaddr + len - 1]
      else zread_negative space vaddr len)"

text \<open>
  A process. \<open>VadRoot_traverse\<close> is the sequence the loops of the plugins run over:
  \<^verbatim>\<open>vad.dereference()\<close> for each \<^verbatim>\<open>vad\<close> of \<^verbatim>\<open>task.VadRoot.traverse()\<close>, \<open>None\<close> for
  a node that does not materialize.
\<close>

record task =
  UniqueProcessId :: int
  ImageFileName :: string
  task_obj_offset :: int
  get_process_address_space :: address_space
  VadRoot_traverse :: "vad option list"

definition stars :: string where
  "stars = replicate 72 (CHR ''*'') @ ''\<newline>''"

section \<open>VADInfo\<close>

definition write_vad_short :: "vad \<Rightarrow> string list" where
  "write_vad_short vad =
     [''VAD node @'' @ format_08x (obj_offset vad) @ '' Start '' @ format_08x (get_start vad)
        @ '' End '' @ format_08x (get_end vad) @ '' Tag '' @ format_str_width 4 (Tag vad)
        @ ''\<newline>'',
      ''Flags: '' @ flags_str (VadFlags vad) @ ''\<newline>'',
      ''Protection: '' @ decode_protection (Protection (VadFlags vad)) @ ''\<newline>'']
     @ (case VadType (VadFlags vad) of
          None \<Rightarrow> []
        | Some t \<Rightarrow> [''Vad Type: '' @ decode_vad_type t @ ''\<newline>''])"

text \<open>
  The lines \<^verbatim>\<open>write_vad_control\<close> writes once it has a control area. The last one is
  under \<^verbatim>\<open>if file_object and file_object != 0\<close>, for the object the file pointer
  dereferences to; \<^verbatim>\<open>file_object != 0\<close> compares the offset of the object.
\<close>

definition control_area_lines :: "control_area \<Rightarrow> string list" where
  "control_area_lines ca =
     [''ControlArea @'' @ format_08x (ca_obj_offset ca) @ '' Segment ''
        @ format_08x (Segment ca) @ ''\<newline>'',
      ''Dereference list: Flink '' @ format_08x (DereferenceList_Flink ca) @ '', Blink ''
        @ format_08x (DereferenceList_Blink ca) @ ''\<newline>'',
      ''NumberOfSectionReferences: '' @ format_int_width 10 (NumberOfSectionReferences ca)
        @ '' NumberOfPfnReferences:  '' @ format_int_width 10 (NumberOfPfnReferences ca)
        @ ''\<newline>'',
      ''NumberOfMappedViews:       '' @ format_int_width 10 (NumberOfMappedViews ca)
        @ '' NumberOfUserReferences: '' @ format_int_width 10 (NumberOfUserReferences ca)
        @ ''\<newline>'',
      ''WaitingForDeletion Event:  '' @ format_08x (WaitingForDeletion ca) @ ''\<newline>'',
      ''Control Flags: '' @ ca_flags_str ca @ ''\<newline>'']
     @ (case ptr_deref (FilePointer ca) of
          None \<Rightarrow> []
        | Some file_object \<Rightarrow>
            if fo_obj_offset file_object \<noteq> 0
            then [''FileObject @'' @ format_08x (fo_obj_offset file_object)
                    @ '' FileBuffer @ '' @ format_08x (fo_FileName_Buffer file_object)
                    @ ''          , Name: '' @ fo_FileName file_object @ ''\<newline>'']
            else [])"

text \<open>
  \<^verbatim>\<open>write_vad_control\<close>: \<open>Inl\<close> is the exception raised, \<open>Inr\<close> the lines written.
  A record without the attribute \<^verbatim>\<open>ControlArea\<close> raises \<^verbatim>\<open>AttributeError\<close> at
  \<^verbatim>\<open>vad.ControlArea\<close>, after the test of \<^verbatim>\<open>PrivateMemory\<close>.
\<close>

definition write_vad_control :: "vad \<Rightarrow> error + string list" where
  "write_vad_control vad =
     (if PrivateMemory (VadFlags vad) = 1 then Inr []
      else case ControlArea vad of
             None \<Rightarrow> Inl (AttributeError ''ControlArea'')
           | Some control_area \<Rightarrow>
               if \<not> pointer_truth control_area then Inr []
               else (case ptr_deref control_area of
                       None \<Rightarrow> Inr []
                     | Some ca \<Rightarrow> Inr (control_area_lines ca)))"

definition write_vad_ext :: "vad \<Rightarrow> error + string list" where
  "write_vad_ext vad =
     (if obj_type vad \<noteq> ''_MMVAD_SHORT''
      then (case long_fields vad of
              None \<Rightarrow> Inl (AttributeError ''FirstPrototypePte'')
            | Some l \<Rightarrow>
                Inr [''First prototype PTE: '' @ format_08x (FirstPrototypePte l)
                       @ '' Last contiguous PTE: '' @ format_08x (LastContiguousPte l)
                       @ ''\<newline>'',
                     ''Flags2: '' @ flags2_str l @ ''\<newline>''])
      else Inr [])"

text \<open>\<^verbatim>\<open>try: ... except AttributeError: pass\<close>\<close>

fun except_AttributeError :: "error + string list \<Rightarrow> error + string list" where
  "except_AttributeError (Inl (AttributeError _)) = Inr []"
| "except_AttributeError r = r"

text \<open>The body of the loop of \<^verbatim>\<open>VADInfo.render\<close> over the nodes of one process;
  \<^verbatim>\<open>vad != 0\<close> compares the offset of the object.\<close>

definition VADInfo_render_vad :: "vad option \<Rightarrow> error + string list" where
  "VADInfo_render_vad vo =
     (case vo of
        None \<Rightarrow> Inr [''\<newline>'']
      | Some vad \<Rightarrow>
          if obj_offset vad \<noteq> 0
          then (case except_AttributeError (Inr (write_vad_short vad)) of
                  Inl e \<Rightarrow> Inl e
                | Inr s1 \<Rightarrow>
                    (case except_AttributeError (write_vad_control vad) of
                       Inl e \<Rightarrow> Inl e
                     | Inr s2 \<Rightarrow>
                         (case except_AttributeError (write_vad_ext vad) of
                            Inl e \<Rightarrow> Inl e
                          | Inr s3 \<Rightarrow> Inr (s1 @ s2 @ s3 @ [''\<newline>'']))))
          else Inr [''\<newline>''])"

section \<open>VADTree\<close>

text \<open>
  The loop of \<^verbatim>\<open>VADTree.render\<close> over the nodes of one process, with the dictionary
  \<^verbatim>\<open>levels\<close> as it stands: each node that materializes gets
  \<^verbatim>\<open>levels.get(vad.Parent.v(), -1) + 1\<close>, stored under \<^verbatim>\<open>vad.obj_offset\<close>.
\<close>

fun VADTree_levels :: "(int \<rightharpoonup> int) \<Rightarrow> vad option list \<Rightarrow> (vad \<times> int) list" where
  "VADTree_levels levels [] = []"
| "VADTree_levels levels (None # rest) = VADTree_levels levels rest"
| "VADTree_levels levels (Some vad # rest) =
     (let level = dict_get levels (Parent vad) (- 1) + 1
      in (vad, level) # VADTree_levels (levels(obj_offset vad \<mapsto> level)) rest)"

definition VADTree_line :: "vad \<times> int \<Rightarrow> string" where
  "VADTree_line = (\<lambda>(vad, level).
     replicate (nat level) (CHR '' '') @ format_08x (get_start vad) @ '' - ''
       @ format_08x (get_end vad) @ ''\<newline>'')"

definition VADTree_render_task :: "task \<Rightarrow> string list" where
  "VADTree_render_task task =
     [stars, ''Pid: '' @ format_int_width 6 (UniqueProcessId task) @ ''\<newline>'']
     @ map VADTree_line (VADTree_levels Map.empty (VadRoot_traverse task))"

definition VADTree_render :: "task list \<Rightarrow> string list" where
  "VADTree_render tasks = concat (map VADTree_render_task tasks)"

text \<open>The dictionary \<^verbatim>\<open>levels\<close> after the loop has reported the given nodes.\<close>

definition levels_of :: "(int \<rightharpoonup> int) \<Rightarrow> (vad \<times> int) list \<Rightarrow> (int \<rightharpoonup> int)" where
  "levels_of levels reported =
     foldl (\<lambda>m (vad, level). m(obj_offset vad \<mapsto> level)) levels reported"

text \<open>
  Modelled from the spec: the traversal \<^verbatim>\<open>task.VadRoot.traverse()\<close> (the node classes
  are outside this file). Section 4.2: a null root gives the empty sequence; the nodes
  come in pre-order, a node before its left subtree, the left subtree before the right
  one; a reference that does not materialize is passed over and the walk goes on; the
  walk is capped by a maximum count of visited nodes, and going over the cap truncates
  it, which the result reports. \<open>store\<close> materializes a reference, the list is the stack
  of references still to visit, and the boolean of the result is the truncation report.
\<close>

fun traverse :: "nat \<Rightarrow> (int \<Rightarrow> vad option) \<Rightarrow> int list \<Rightarrow> vad option list \<times> bool" where
  "traverse cap store [] = ([], False)"
| "traverse cap store (p # ps) =
     (if p = 0 then traverse cap store ps
      else (case cap of
              0 \<Rightarrow> ([], True)
            | Suc c \<Rightarrow>
                (case store p of
                   None \<Rightarrow> (let (r, t) = traverse c store ps in (None # r, t))
                 | Some vad \<Rightarrow>
                     (let (r, t) = traverse c store (LeftChild vad # RightChild vad # ps)
                      in (Some vad # r, t)))))"

text \<open>The walker of the spec: the traversal, with the depth of each node as
  \<^verbatim>\<open>VADTree.render\<close> computes it.\<close>

definition walk :: "nat \<Rightarrow> (int \<Rightarrow> vad option) \<Rightarrow> int \<Rightarrow> (vad \<times> int) list \<times> bool" where
  "walk cap store root =
     (let (seq, truncated) = traverse cap store [root]
      in (VADTree_levels Map.empty seq, truncated))"

section \<open>VADDump\<close>

text \<open>
  What the plugin sees of the operating system: \<^verbatim>\<open>os.path.isdir\<close>, and whether
  \<^verbatim>\<open>open(path, 'wb')\<close> succeeds (it raises \<^verbatim>\<open>IOError\<close> otherwise). The state is the
  text written to \<^verbatim>\<open>outfd\<close> and the contents of the files.
\<close>

record os_env =
  isdir :: "string \<Rightarrow> bool"
  can_open_wb :: "string \<Rightarrow> bool"

record world =
  outfd :: "string list"
  files :: "string \<rightharpoonup> 8 word list"

record session =
  session_dump_dir :: "string option"

record VADDump =
  dump_dir :: string
  verbose :: bool

text \<open>
  Lines 261 and 262 of \<^verbatim>\<open>VADDump.__init__\<close>: with a session,
  \<^verbatim>\<open>dump_dir or self.session.dump_dir\<close> takes the directory of the session when the
  argument is \<^verbatim>\<open>None\<close> or empty; without one the argument stays as it is.
\<close>

definition resolve_dump_dir :: "string option \<Rightarrow> session option \<Rightarrow> string option" where
  "resolve_dump_dir dump_dir_arg session_arg =
     (case session_arg of
        None \<Rightarrow> dump_dir_arg
      | Some s \<Rightarrow> (case dump_dir_arg of
                     None \<Rightarrow> session_dump_dir s
                   | Some x \<Rightarrow> if x = [] then session_dump_dir s else Some x))"

text \<open>
  \<^verbatim>\<open>VADDump.__init__\<close>. The module does not import \<^verbatim>\<open>debug\<close>, so
  \<^verbatim>\<open>debug.error(...)\<close> raises \<^verbatim>\<open>NameError\<close>.
\<close>

definition VADDump_init :: "os_env \<Rightarrow> string option \<Rightarrow> bool \<Rightarrow> session option \<Rightarrow> error + VADDump" where
  "VADDump_init env dump_dir_arg verbose_arg session_arg =
     (case resolve_dump_dir dump_dir_arg session_arg of
        None \<Rightarrow> Inl (PluginError ''Dump directory not specified.'')
      | Some dir \<Rightarrow>
          if \<not> isdir env dir then Inl (NameError ''debug'')
          else Inr \<lparr>dump_dir = dir, verbose = verbose_arg\<rparr>)"

text \<open>\<^verbatim>\<open>os.path.join(a, b)\<close> of \<^verbatim>\<open>posixpath\<close>\<close>

definition os_path_join :: "string \<Rightarrow> string \<Rightarrow> string" where
  "os_path_join a b =
     (if take 1 b = ''/'' then b
      else if a = [] \<or> last a = CHR ''/'' then a @ b
      else a @ ''/'' @ b)"

text \<open>The destination of a dump:
  \<^verbatim>\<open>os.path.join(self.dump_dir, "{0}.{1:x}.{2:08x}-{3:08x}.dmp".format(name, offset, start, end))\<close>\<close>

definition dump_path :: "string \<Rightarrow> string \<Rightarrow> int \<Rightarrow> int \<Rightarrow> int \<Rightarrow> string" where
  "dump_path dir name offset vstart vend =
     os_path_join dir
       (name @ ''.'' @ format_x offset @ ''.'' @ format_08x vstart @ ''-''
          @ format_08x vend @ ''.dmp'')"

definition outfd_write :: "world \<Rightarrow> string \<Rightarrow> world" where
  "outfd_write w s = w\<lparr>outfd := outfd w @ [s]\<rparr>"

text \<open>
  The body of the inner loop of \<^verbatim>\<open>VADDump.render\<close>, for one element of the traversal.
  The result is the exception that leaves the loop, if any, and the state.
\<close>

text \<open>The bytes of a region, line 305:
  \<^verbatim>\<open>range_data = task_space.zread(start, end - start + 1)\<close>\<close>

definition range_data :: "address_space \<Rightarrow> vad \<Rightarrow> 8 word list" where
  "range_data task_space vad =
     zread task_space (get_start vad) (get_end vad - get_start vad + 1)"

definition VADDump_render_vad ::
  "os_env \<Rightarrow> VADDump \<Rightarrow> string \<Rightarrow> int \<Rightarrow> address_space \<Rightarrow> vad option \<Rightarrow> world \<Rightarrow> error option \<times> world" where
  "VADDump_render_vad env self name offset task_space vo w =
     (case vo of
        None \<Rightarrow> (None, w)
      | Some vad \<Rightarrow>
          if obj_type vad = ''_MMVAD'' then (None, w)
          else
            (let vstart = get_start vad;
                 vend = get_end vad;
                 path = dump_path (dump_dir self) name offset vstart vend
             in if \<not> can_open_wb env path then (Some (IOError path), w)
                else
                  (let data = range_data task_space vad;
                       w1 = (if verbose self
                             then outfd_write w (''Writing VAD for '' @ path @ ''\<newline>'')
                             else w)
                   in (None, w1\<lparr>files := (files w1)(path \<mapsto> data)\<rparr>))))"

fun VADDump_render_vads ::
  "os_env \<Rightarrow> VADDump \<Rightarrow> string \<Rightarrow> int \<Rightarrow> address_space \<Rightarrow> vad option list \<Rightarrow> world \<Rightarrow> error option \<times> world" where
  "VADDump_render_vads env self name offset task_space [] w = (None, w)"
| "VADDump_render_vads env self name offset task_space (vo # rest) w =
     (case VADDump_render_vad env self name offset task_space vo w of
        (Some e, w') \<Rightarrow> (Some e, w')
      | (None, w') \<Rightarrow> VADDump_render_vads env self name offset task_space rest w')"

text \<open>\<^verbatim>\<open>VADDump.render\<close> over the processes of \<^verbatim>\<open>filter_processes()\<close>.\<close>

fun VADDump_render :: "os_env \<Rightarrow> VADDump \<Rightarrow> task list \<Rightarrow> world \<Rightarrow> error option \<times> world" where
  "VADDump_render env self [] w = (None, w)"
| "VADDump_render env self (task # rest) w =
     (let w1 = outfd_write w (''Pid: '' @ format_int_width 6 (UniqueProcessId task) @ ''\<newline>'');
          task_space = get_process_address_space task;
          name = ImageFileName task
      in case vtop task_space (task_obj_offset task) of
           None \<Rightarrow>
             VADDump_render env self rest
               (outfd_write w1 ''Process does not have a valid address space.\<newline>'')
         | Some offset \<Rightarrow>
             (case VADDump_render_vads env self name offset task_space
                     (VadRoot_traverse task) (outfd_write w1 stars) of
                (Some e, w') \<Rightarrow> (Some e, w')
              | (None, w') \<Rightarrow> VADDump_render env self rest w'))"

text \<open>A run of the plugin: the construction, then \<^verbatim>\<open>render\<close> when it succeeded.\<close>

definition VADDump_run ::
  "os_env \<Rightarrow> string option \<Rightarrow> bool \<Rightarrow> session option \<Rightarrow> task list \<Rightarrow> world \<Rightarrow> error option \<times> world" where
  "VADDump_run env dump_dir_arg verbose_arg session_arg tasks w =
     (case VADDump_init env dump_dir_arg verbose_arg session_arg of
        Inl e \<Rightarrow> (Some e, w)
      | Inr self \<Rightarrow> VADDump_render env self tasks w)"

section \<open>Test data\<close>

definition private_flags :: vad_flags where
  "private_flags = \<lparr>flags_str = ''PrivateMemory: 1'', Protection = 4, PrivateMemory = 1,
     VadType = None\<rparr>"

definition shared_flags :: vad_flags where
  "shared_flags = \<lparr>flags_str = ''PrivateMemory: 0'', Protection = 1, PrivateMemory = 0,
     VadType = Some 2\<rparr>"

text \<open>A short node: offset, bounds, parent, left child, right child.\<close>

definition short_vad :: "int \<Rightarrow> int \<Rightarrow> int \<Rightarrow> int \<Rightarrow> int \<Rightarrow> int \<Rightarrow> vad" where
  "short_vad off vstart vend parent left right =
     \<lparr>obj_offset = off, obj_type = ''_MMVAD_SHORT'', Tag = ''VadS'',
      get_start = vstart, get_end = vend, Parent = parent, LeftChild = left,
      RightChild = right, VadFlags = private_flags, ControlArea = None,
      long_fields = None\<rparr>"

text \<open>The tree of the scenario: the root A, its left child B, and C the right child
  of B.\<close>

definition node_A :: vad where
  "node_A = short_vad 0xA0 0x1000 0x1fff 0 0xB0 0"

definition node_B :: vad where
  "node_B = short_vad 0xB0 0x2000 0x2fff 0xA0 0 0xC0"

definition node_C :: vad where
  "node_C = short_vad 0xC0 0x3000 0x3fff 0xB0 0 0"

definition store_ABC :: "int \<Rightarrow> vad option" where
  "store_ABC p =
     (if p = 0xA0 then Some node_A
      else if p = 0xB0 then Some node_B
      else if p = 0xC0 then Some node_C
      else None)"

text \<open>A corrupted tree: the left child of the root is the root itself.\<close>

definition node_loop :: vad where
  "node_loop = short_vad 0xA0 0x1000 0x1fff 0 0xA0 0"

definition store_loop :: "int \<Rightarrow> vad option" where
  "store_loop p = (if p = 0xA0 then Some node_loop else None)"

text \<open>A shared region with a control area, and the same node marked private.\<close>

definition example_control_area :: control_area where
  "example_control_area =
     \<lparr>ca_obj_offset = 0x8000, Segment = 0x9000, DereferenceList_Flink = 0,
      DereferenceList_Blink = 0, NumberOfSectionReferences = 1,
      NumberOfPfnReferences = 2, NumberOfMappedViews = 1, NumberOfUserReferences = 2,
      WaitingForDeletion = 0, ca_flags_str = ''Image: 1'',
      FilePointer = Pointer 0 None\<rparr>"

definition shared_vad :: vad where
  "shared_vad =
     \<lparr>obj_offset = 0xD0, obj_type = ''_MMVAD_LONG'', Tag = ''Vadl'',
      get_start = 0x10000, get_end = 0x10fff, Parent = 0, LeftChild = 0,
      RightChild = 0, VadFlags = shared_flags,
      ControlArea = Some (Pointer 0x8000 (Some example_control_area)),
      long_fields = None\<rparr>"

definition private_vad :: vad where
  "private_vad = shared_vad\<lparr>VadFlags := private_flags\<rparr>"

text \<open>A shared node whose control area pointer is zero although the address zero
  resolves.\<close>

definition zero_ref_vad :: vad where
  "zero_ref_vad = shared_vad\<lparr>ControlArea := Some (Pointer 0 (Some example_control_area))\<rparr>"

text \<open>An address space with four resident bytes from 0x1000 on, whose reader gives
  nothing for a negative length, and small regions to dump from it.\<close>

definition example_space :: address_space where
  "example_space =
     \<lparr>vtop = (\<lambda>a. if 0x1000 \<le> a \<and> a < 0x1004 then Some (a - 0x1000) else None),
      phys = (\<lambda>p. if p = 0 then 0x4D else if p = 1 then 0x5A else 0x90),
      zread_negative = (\<lambda>vaddr len. [])\<rparr>"

definition small_vad :: vad where
  "small_vad = short_vad 0xA0 0x1000 0x1005 0 0 0"

definition other_vad :: vad where
  "other_vad = short_vad 0xB0 0x2000 0x2001 0xA0 0 0"


definition bad_tag_vad :: vad where
  "bad_tag_vad = small_vad\<lparr>obj_type := ''_MMVAD''\<rparr>"

definition example_self :: VADDump where
  "example_self = \<lparr>dump_dir = ''/tmp/dumps'', verbose = False\<rparr>"

definition example_task :: task where
  "example_task =
     \<lparr>UniqueProcessId = 4, ImageFileName = ''a.exe'', task_obj_offset = 0x1000,
      get_process_address_space = example_space,
      VadRoot_traverse = [Some small_vad, Some other_vad]\<rparr>"

definition empty_world :: world where
  "empty_world = \<lparr>outfd = [], files = Map.empty\<rparr>"

text \<open>Every file can be opened; none can; all but the dump of \<open>small_vad\<close> can.\<close>

definition env_ok :: os_env where
  "env_ok = \<lparr>isdir = (\<lambda>d. d = ''/tmp/dumps''), can_open_wb = (\<lambda>p. True)\<rparr>"

definition env_first_unwritable :: os_env where
  "env_first_unwritable =
     \<lparr>isdir = (\<lambda>d. d = ''/tmp/dumps''),
      can_open_wb = (\<lambda>p. p \<noteq> ''/tmp/dumps/a.exe.0.00001000-00001005.dmp'')\<rparr>"

section \<open>Properties of the flag decoder\<close>

lemma dict_enumerate_nth: "i < length xs \<Longrightarrow> dict_enumerate xs (int i) = Some (xs ! i)"
  unfolding dict_enumerate_def
  using map_of_zip_nth[of "map int [0..<length xs]" xs i]
  by (simp add: distinct_map inj_on_def)

lemma dict_enumerate_None: "k < 0 \<or> int (length xs) \<le> k \<Longrightarrow> dict_enumerate xs k = None"
  unfolding dict_enumerate_def
  by (auto simp: map_of_eq_None_iff image_iff dest!: set_zip_leftD)

lemma dict_get_enumerate_in:
  assumes "0 \<le> k" and "k < int (length xs)"
  shows "dict_get (dict_enumerate xs) k d = xs ! nat k"
proof -
  from assms have "nat k < length xs" by simp
  then have "dict_enumerate xs (int (nat k)) = Some (xs ! nat k)"
    by (rule dict_enumerate_nth)
  with assms show ?thesis by (simp add: dict_get_def)
qed

lemma dict_get_enumerate_out:
  assumes "\<not> (0 \<le> k \<and> k < int (length xs))"
  shows "dict_get (dict_enumerate xs) k d = d"
proof -
  from assms have "k < 0 \<or> int (length xs) \<le> k" by auto
  then have "dict_enumerate xs k = None" by (rule dict_enumerate_None)
  then show ?thesis by (simp add: dict_get_def)
qed

lemma length_PROTECT_FLAGS_list: "length PROTECT_FLAGS_list = 32"
  by (simp add: PROTECT_FLAGS_list_def)

lemma length_MI_VAD_TYPE_list: "length MI_VAD_TYPE_list = 8"
  by (simp add: MI_VAD_TYPE_list_def)

lemma hexdigit_val_all: "\<forall>d \<in> set [0..<16]. hexdigit_val (hexdigits ! d) = d"
  by code_simp

lemma hexdigit_val_digit: "d < 16 \<Longrightarrow> hexdigit_val (hexdigits ! d) = d"
  using hexdigit_val_all by simp

lemma hex_val_hex_nat: "hex_val (hex_nat n) = n"
proof (induction n rule: hex_nat.induct)
  case (1 n)
  show ?case
  proof (cases "n < 16")
    case True
    then show ?thesis by (subst hex_nat.simps) (simp add: hex_val_def hexdigit_val_digit)
  next
    case False
    with 1 have "hex_val (hex_nat (n div 16)) = n div 16" by simp
    with False show ?thesis
      by (subst hex_nat.simps) (simp add: hex_val_def hexdigit_val_digit)
  qed
qed

lemma int_of_py_hex_py_hex: "int_of_py_hex (py_hex n) = n"
  by (simp add: int_of_py_hex_def py_hex_def hex_val_hex_nat)

text \<open>
  Claim C6. The two lookups are total. A protection code from 0 to 31 and a type code
  from 0 to 7 give the label at that index of the table of 32, respectively 8, entries.
  Any other code gives the fallback \<^verbatim>\<open>hex(code)\<close>, which carries the raw number:
  reading it back gives the code. Both are functions of the code alone, so they have no
  effect on any state.
\<close>

theorem decode_total:
  "length PROTECT_FLAGS_list = 32 \<and> length MI_VAD_TYPE_list = 8
   \<and> (0 \<le> p \<and> p < 32 \<longrightarrow>
        decode_protection p = PROTECT_FLAGS_list ! nat p
        \<and> decode_protection p \<in> set PROTECT_FLAGS_list)
   \<and> (\<not> (0 \<le> q \<and> q < 32) \<longrightarrow>
        decode_protection q = py_hex q \<and> int_of_py_hex (decode_protection q) = q)
   \<and> (0 \<le> t \<and> t < 8 \<longrightarrow>
        decode_vad_type t = MI_VAD_TYPE_list ! nat t
        \<and> decode_vad_type t \<in> set MI_VAD_TYPE_list)
   \<and> (\<not> (0 \<le> u \<and> u < 8) \<longrightarrow>
        decode_vad_type u = py_hex u \<and> int_of_py_hex (decode_vad_type u) = u)"
proof -
  have p: "decode_protection p = PROTECT_FLAGS_list ! nat p" if "0 \<le> p \<and> p < 32"
    using that dict_get_enumerate_in [of p PROTECT_FLAGS_list]
    by (simp add: decode_protection_def PROTECT_FLAGS_def length_PROTECT_FLAGS_list)
  have q: "decode_protection q = py_hex q" if "\<not> (0 \<le> q \<and> q < 32)"
    using that dict_get_enumerate_out [of q PROTECT_FLAGS_list]
    by (simp add: decode_protection_def PROTECT_FLAGS_def length_PROTECT_FLAGS_list)
  have t: "decode_vad_type t = MI_VAD_TYPE_list ! nat t" if "0 \<le> t \<and> t < 8"
    using that dict_get_enumerate_in [of t MI_VAD_TYPE_list]
    by (simp add: decode_vad_type_def MI_VAD_TYPE_def length_MI_VAD_TYPE_list)
  have u: "decode_vad_type u = py_hex u" if "\<not> (0 \<le> u \<and> u < 8)"
    using that dict_get_enumerate_out [of u MI_VAD_TYPE_list]
    by (simp add: decode_vad_type_def MI_VAD_TYPE_def length_MI_VAD_TYPE_list)
  have pm: "PROTECT_FLAGS_list ! nat p \<in> set PROTECT_FLAGS_list" if "0 \<le> p \<and> p < 32"
  proof -
    from that have "nat p < length PROTECT_FLAGS_list"
      unfolding length_PROTECT_FLAGS_list by linarith
    then show ?thesis by (rule nth_mem)
  qed
  have tm: "MI_VAD_TYPE_list ! nat t \<in> set MI_VAD_TYPE_list" if "0 \<le> t \<and> t < 8"
  proof -
    from that have "nat t < length MI_VAD_TYPE_list"
      unfolding length_MI_VAD_TYPE_list by linarith
    then show ?thesis by (rule nth_mem)
  qed
  show ?thesis
    using p q t u pm tm
    by (simp add: length_PROTECT_FLAGS_list length_MI_VAD_TYPE_list int_of_py_hex_py_hex)
qed

theorem decode_total_witness:
  "decode_protection 4 = ''PAGE_READWRITE''
   \<and> decode_protection 32 = ''0x20''
   \<and> decode_vad_type 7 = ''VadLargePageSection''
   \<and> decode_vad_type (- 1) = ''-0x1''"
proof -
  have a: "PROTECT_FLAGS_list ! nat 4 = ''PAGE_READWRITE''"
    by (simp add: PROTECT_FLAGS_list_def)
  have b: "py_hex 32 = ''0x20''" by code_simp
  have c: "MI_VAD_TYPE_list ! nat 7 = ''VadLargePageSection''"
    by (simp add: MI_VAD_TYPE_list_def)
  have d: "py_hex (- 1) = ''-0x1''" by code_simp
  show ?thesis
    using decode_total [of 4 32 7 "- 1"] a b c d by simp
qed

section \<open>Properties of the region inspector\<close>

lemma control_area_lines_nonempty: "control_area_lines ca \<noteq> []"
  by (simp add: control_area_lines_def)

text \<open>
  Claim C7. \<^verbatim>\<open>write_vad_control\<close> writes control area details only for a node that
  is not private and whose control area reference is present, resolves and is not zero;
  a zero reference gives no details, as an absent one. For a private node the result is
  empty whatever the control area field holds: the function returns before it reads the
  field, so it never resolves the reference. The details are written in full when the
  node is shared and the reference counts.
\<close>

theorem control_area_gate:
  "(PrivateMemory (VadFlags v1) = 1 \<longrightarrow>
      write_vad_control (v1\<lparr>ControlArea := r\<rparr>) = Inr [])
   \<and> (write_vad_control v2 = Inr ls \<and> ls \<noteq> [] \<longrightarrow>
        PrivateMemory (VadFlags v2) \<noteq> 1
        \<and> (\<exists>p ca. ControlArea v2 = Some p \<and> ptr_deref p = Some ca \<and> ptr_v p \<noteq> 0
              \<and> ls = control_area_lines ca))
   \<and> (ControlArea v3 = Some p3 \<and> ptr_v p3 = 0 \<longrightarrow> write_vad_control v3 = Inr [])
   \<and> (PrivateMemory (VadFlags v4) \<noteq> 1 \<and> ControlArea v4 = Some p4
        \<and> ptr_deref p4 = Some ca4 \<and> ptr_v p4 \<noteq> 0 \<longrightarrow>
        write_vad_control v4 = Inr (control_area_lines ca4)
        \<and> control_area_lines ca4 \<noteq> [])"
proof (intro conjI impI)
  assume "PrivateMemory (VadFlags v1) = 1"
  then show "write_vad_control (v1\<lparr>ControlArea := r\<rparr>) = Inr []"
    by (simp add: write_vad_control_def)
next
  assume a: "write_vad_control v2 = Inr ls \<and> ls \<noteq> []"
  then show "PrivateMemory (VadFlags v2) \<noteq> 1"
    by (auto simp: write_vad_control_def)
  from a show "\<exists>p ca. ControlArea v2 = Some p \<and> ptr_deref p = Some ca \<and> ptr_v p \<noteq> 0
      \<and> ls = control_area_lines ca"
    by (auto simp: write_vad_control_def pointer_truth_def
             split: if_splits option.splits)
next
  assume "ControlArea v3 = Some p3 \<and> ptr_v p3 = 0"
  then show "write_vad_control v3 = Inr []"
    by (simp add: write_vad_control_def pointer_truth_def split: option.splits)
next
  assume a: "PrivateMemory (VadFlags v4) \<noteq> 1 \<and> ControlArea v4 = Some p4
        \<and> ptr_deref p4 = Some ca4 \<and> ptr_v p4 \<noteq> 0"
  then show "write_vad_control v4 = Inr (control_area_lines ca4)"
    by (simp add: write_vad_control_def pointer_truth_def)
  show "control_area_lines ca4 \<noteq> []" by (rule control_area_lines_nonempty)
qed

theorem control_area_gate_witness:
  "write_vad_control private_vad = Inr []
   \<and> write_vad_control zero_ref_vad = Inr []
   \<and> write_vad_control shared_vad = Inr (control_area_lines example_control_area)
   \<and> control_area_lines example_control_area \<noteq> []"
proof -
  have 1: "PrivateMemory (VadFlags private_vad) = 1"
    by (simp add: private_vad_def private_flags_def)
  have 2: "private_vad\<lparr>ControlArea := ControlArea private_vad\<rparr> = private_vad"
    by simp
  have 3: "ControlArea zero_ref_vad = Some (Pointer 0 (Some example_control_area))
           \<and> ptr_v (Pointer 0 (Some example_control_area)) = 0"
    by (simp add: zero_ref_vad_def)
  have 4: "PrivateMemory (VadFlags shared_vad) \<noteq> 1
           \<and> ControlArea shared_vad = Some (Pointer 0x8000 (Some example_control_area))
           \<and> ptr_deref (Pointer 0x8000 (Some example_control_area)) = Some example_control_area
           \<and> ptr_v (Pointer 0x8000 (Some example_control_area)) \<noteq> 0"
    by (simp add: shared_vad_def shared_flags_def)
  show ?thesis
    using control_area_gate [of private_vad "ControlArea private_vad" shared_vad
        "control_area_lines example_control_area" zero_ref_vad
        "Pointer 0 (Some example_control_area)" shared_vad
        "Pointer 0x8000 (Some example_control_area)" example_control_area]
      1 3 4
    unfolding 2 by simp
qed

section \<open>Properties of the depth computation\<close>

lemma levels_of_Nil: "levels_of lv [] = lv"
  by (simp add: levels_of_def)

lemma levels_of_Cons:
  "levels_of lv ((v, l) # xs) = levels_of (lv(obj_offset v \<mapsto> l)) xs"
  by (simp add: levels_of_def)

lemma levels_of_snoc:
  "levels_of lv (xs @ [(v, l)]) = (levels_of lv xs)(obj_offset v \<mapsto> l)"
  by (simp add: levels_of_def)

lemma VADTree_levels_nth:
  "i < length (VADTree_levels lv seq) \<Longrightarrow>
   snd (VADTree_levels lv seq ! i) =
     dict_get (levels_of lv (take i (VADTree_levels lv seq)))
       (Parent (fst (VADTree_levels lv seq ! i))) (- 1) + 1"
proof (induction seq arbitrary: lv i)
  case Nil
  then show ?case by simp
next
  case (Cons vo rest)
  show ?case
  proof (cases vo)
    case None
    with Cons show ?thesis by simp
  next
    case (Some vad)
    define level where "level = dict_get lv (Parent vad) (- 1) + 1"
    define lv' where "lv' = lv(obj_offset vad \<mapsto> level)"
    have out: "VADTree_levels lv (vo # rest) = (vad, level) # VADTree_levels lv' rest"
      by (simp add: Some level_def lv'_def Let_def)
    show ?thesis
    proof (cases i)
      case 0
      then show ?thesis by (simp add: out levels_of_Nil level_def)
    next
      case (Suc j)
      with Cons.prems out have "j < length (VADTree_levels lv' rest)" by simp
      then have "snd (VADTree_levels lv' rest ! j) =
          dict_get (levels_of lv' (take j (VADTree_levels lv' rest)))
            (Parent (fst (VADTree_levels lv' rest ! j))) (- 1) + 1"
        by (rule Cons.IH)
      then show ?thesis by (simp add: out Suc levels_of_Cons lv'_def)
    qed
  qed
qed

lemma levels_of_Some:
  "levels_of lv rep k = Some d \<Longrightarrow>
   lv k = Some d \<or> (\<exists>j<length rep. obj_offset (fst (rep ! j)) = k \<and> snd (rep ! j) = d)"
proof (induction rep arbitrary: d rule: rev_induct)
  case Nil
  then show ?case by (simp add: levels_of_Nil)
next
  case (snoc x xs)
  obtain v l where x: "x = (v, l)" by (cases x)
  show ?case
  proof (cases "obj_offset v = k")
    case True
    with snoc.prems x have "l = d" by (simp add: levels_of_snoc)
    with True x have "obj_offset (fst ((xs @ [x]) ! length xs)) = k
        \<and> snd ((xs @ [x]) ! length xs) = d" by simp
    then show ?thesis by (intro disjI2 exI [of _ "length xs"]) simp
  next
    case False
    with snoc.prems x have "levels_of lv xs k = Some d" by (simp add: levels_of_snoc)
    from snoc.IH [OF this] show ?thesis
    proof
      assume "lv k = Some d" then show ?thesis by simp
    next
      assume "\<exists>j<length xs. obj_offset (fst (xs ! j)) = k \<and> snd (xs ! j) = d"
      then obtain j where "j < length xs" "obj_offset (fst (xs ! j)) = k" "snd (xs ! j) = d"
        by blast
      then have "j < length (xs @ [x]) \<and> obj_offset (fst ((xs @ [x]) ! j)) = k
          \<and> snd ((xs @ [x]) ! j) = d" by (simp add: nth_append)
      then show ?thesis by blast
    qed
  qed
qed

lemma levels_of_None:
  "levels_of lv rep k = None \<longleftrightarrow>
   lv k = None \<and> (\<forall>j<length rep. obj_offset (fst (rep ! j)) \<noteq> k)"
proof (induction rep rule: rev_induct)
  case Nil
  then show ?case by (simp add: levels_of_Nil)
next
  case (snoc x xs)
  obtain v l where x: "x = (v, l)" by (cases x)
  have "(\<forall>j<length (xs @ [x]). obj_offset (fst ((xs @ [x]) ! j)) \<noteq> k) \<longleftrightarrow>
        (\<forall>j<length xs. obj_offset (fst (xs ! j)) \<noteq> k) \<and> obj_offset v \<noteq> k"
    using x by (auto simp: nth_append less_Suc_eq)
  with snoc x show ?case by (auto simp: levels_of_snoc)
qed

lemma VADTree_levels_parent:
  assumes i: "i < length (VADTree_levels Map.empty seq)"
  shows "(\<exists>j<i. obj_offset (fst (VADTree_levels Map.empty seq ! j))
                  = Parent (fst (VADTree_levels Map.empty seq ! i))
              \<and> snd (VADTree_levels Map.empty seq ! i)
                  = snd (VADTree_levels Map.empty seq ! j) + 1)
         \<or> ((\<forall>j<i. obj_offset (fst (VADTree_levels Map.empty seq ! j))
                  \<noteq> Parent (fst (VADTree_levels Map.empty seq ! i)))
            \<and> snd (VADTree_levels Map.empty seq ! i) = 0)"
proof -
  let ?out = "VADTree_levels Map.empty seq"
  let ?k = "Parent (fst (?out ! i))"
  let ?m = "levels_of Map.empty (take i ?out)"
  have lvl: "snd (?out ! i) = dict_get ?m ?k (- 1) + 1"
    using i by (rule VADTree_levels_nth)
  show ?thesis
  proof (cases "?m ?k")
    case None
    then have "\<forall>j<length (take i ?out). obj_offset (fst (take i ?out ! j)) \<noteq> ?k"
      by (simp add: levels_of_None)
    with i have "\<forall>j<i. obj_offset (fst (?out ! j)) \<noteq> ?k" by simp
    moreover from None lvl have "snd (?out ! i) = 0" by (simp add: dict_get_def)
    ultimately show ?thesis by blast
  next
    case (Some d)
    from levels_of_Some [OF Some] obtain j where
      "j < length (take i ?out)" "obj_offset (fst (take i ?out ! j)) = ?k"
      "snd (take i ?out ! j) = d" by auto
    with i have "j < i" "obj_offset (fst (?out ! j)) = ?k" "snd (?out ! j) = d" by simp_all
    moreover from Some lvl have "snd (?out ! i) = d + 1" by (simp add: dict_get_def)
    ultimately show ?thesis by blast
  qed
qed

lemma VADTree_levels_nodes:
  "map fst (VADTree_levels lv seq) = map the (filter (\<lambda>vo. vo \<noteq> None) seq)"
proof (induction seq arbitrary: lv)
  case Nil
  then show ?case by simp
next
  case (Cons vo rest)
  show ?case
  proof (cases vo)
    case None
    then show ?thesis by (simp add: Cons.IH)
  next
    case (Some vad)
    then show ?thesis by (simp add: Let_def Cons.IH)
  qed
qed

lemma VADTree_levels_ABC:
  "VADTree_levels Map.empty [Some node_A, Some node_B, Some node_C]
     = [(node_A, 0), (node_B, 1), (node_C, 2)]"
  by (simp add: Let_def dict_get_def node_A_def node_B_def node_C_def short_vad_def)

lemma traverse_ABC:
  "traverse (Suc (Suc (Suc c))) store_ABC [0xA0]
     = ([Some node_A, Some node_B, Some node_C], False)"
  by (simp add: store_ABC_def node_A_def node_B_def node_C_def short_vad_def)


lemma walk_ABC:
  assumes "3 \<le> cap"
  shows "walk cap store_ABC 0xA0 = ([(node_A, 0), (node_B, 1), (node_C, 2)], False)"
proof -
  from assms obtain c where "cap = Suc (Suc (Suc c))"
    by (metis add_Suc_right add_Suc_shift le_Suc_ex numeral_3_eq_3 plus_nat.add_0)
  then show ?thesis
    by (simp only: walk_def traverse_ABC VADTree_levels_ABC Let_def split_conv)
qed

text \<open>
  Claim C3. In the output of the loop of \<^verbatim>\<open>VADTree.render\<close>, the depth of each node is
  one more than the depth the dictionary holds for its parent, where the dictionary is
  keyed by the offset of a node and holds the nodes reported so far; a node whose parent
  is not in the dictionary is at depth 0. So the depth of a node is the depth of an
  earlier node with the identity of its parent, plus 1, or it is 0 when there is none,
  and the first node, the root, is at depth 0. The tree of the scenario, A with the left
  child B and C the right child of B, gives A at 0, B at 1 and C at 2, from the pre-order
  sequence and from the walk of the tree.
\<close>

theorem depth_from_parent:
  assumes out: "out = VADTree_levels Map.empty seq"
  shows
   "(i < length out \<longrightarrow>
       snd (out ! i) =
         (case levels_of Map.empty (take i out) (Parent (fst (out ! i))) of
            None \<Rightarrow> 0
          | Some d \<Rightarrow> d + 1)
       \<and> ((\<exists>j<i. obj_offset (fst (out ! j)) = Parent (fst (out ! i))
                  \<and> snd (out ! i) = snd (out ! j) + 1)
          \<or> ((\<forall>j<i. obj_offset (fst (out ! j)) \<noteq> Parent (fst (out ! i)))
             \<and> snd (out ! i) = 0)))
    \<and> (out \<noteq> [] \<longrightarrow> snd (out ! 0) = 0)
    \<and> VADTree_levels Map.empty [Some node_A, Some node_B, Some node_C]
         = [(node_A, 0), (node_B, 1), (node_C, 2)]
    \<and> (3 \<le> cap \<longrightarrow>
         walk cap store_ABC 0xA0 = ([(node_A, 0), (node_B, 1), (node_C, 2)], False))"
proof (intro conjI impI)
  assume i: "i < length out"
  then have "snd (out ! i) =
      dict_get (levels_of Map.empty (take i out)) (Parent (fst (out ! i))) (- 1) + 1"
    unfolding out by (rule VADTree_levels_nth)
  then show "snd (out ! i) =
         (case levels_of Map.empty (take i out) (Parent (fst (out ! i))) of
            None \<Rightarrow> 0
          | Some d \<Rightarrow> d + 1)"
    by (simp add: dict_get_def split: option.splits)
  from i show "(\<exists>j<i. obj_offset (fst (out ! j)) = Parent (fst (out ! i))
                  \<and> snd (out ! i) = snd (out ! j) + 1)
          \<or> ((\<forall>j<i. obj_offset (fst (out ! j)) \<noteq> Parent (fst (out ! i)))
             \<and> snd (out ! i) = 0)"
    unfolding out by (rule VADTree_levels_parent)
next
  assume "out \<noteq> []"
  then have "0 < length (VADTree_levels Map.empty seq)" by (simp add: out)
  from VADTree_levels_nth [OF this] show "snd (out ! 0) = 0"
    by (simp add: out levels_of_Nil dict_get_def)
next
  show "VADTree_levels Map.empty [Some node_A, Some node_B, Some node_C]
         = [(node_A, 0), (node_B, 1), (node_C, 2)]"
    by (rule VADTree_levels_ABC)
next
  assume "3 \<le> cap"
  then show "walk cap store_ABC 0xA0 = ([(node_A, 0), (node_B, 1), (node_C, 2)], False)"
    by (rule walk_ABC)
qed

theorem depth_from_parent_witness:
  "snd ([(node_A, 0), (node_B, 1), (node_C, 2 :: int)] ! 2) = 0 + 1 + 1
   \<and> obj_offset (fst ([(node_A, 0), (node_B, 1), (node_C, 2 :: int)] ! 1)) = Parent node_C
   \<and> snd ([(node_A, 0), (node_B, 1), (node_C, 2 :: int)] ! 0) = 0
   \<and> walk 3 store_ABC 0xA0 = ([(node_A, 0), (node_B, 1), (node_C, 2)], False)"
proof -
  have out: "[(node_A, 0), (node_B, 1), (node_C, 2)]
      = VADTree_levels Map.empty [Some node_A, Some node_B, Some node_C]"
    by (rule VADTree_levels_ABC [symmetric])
  have p: "obj_offset node_B = Parent node_C"
    by (simp add: node_B_def node_C_def short_vad_def)
  show ?thesis
    using depth_from_parent [OF out, of 2 3] p by simp
qed

lemma length_VADTree_levels: "length (VADTree_levels lv seq) \<le> length seq"
proof -
  have "length (map fst (VADTree_levels lv seq)) \<le> length seq"
    unfolding VADTree_levels_nodes by simp
  then show ?thesis by simp
qed

text \<open>
  Claim C10. A node whose parent offset is not a key of the dictionary gets the depth 0,
  as a root does, and is stored and reported like any other node: in one step of the
  loop, and in the whole output for every node none of whose predecessors has the
  identity of its parent, so also for a node that comes before its parent or whose
  parent reference is corrupt. No node that materializes is left out, and the text
  written for the process is one line for each reported node, nothing else.
\<close>

theorem absent_parent_depth_zero:
  assumes out: "out = VADTree_levels Map.empty seq"
  shows
   "(levels (Parent vad) = None \<longrightarrow>
       VADTree_levels levels (Some vad # rest)
         = (vad, 0) # VADTree_levels (levels(obj_offset vad \<mapsto> 0)) rest)
    \<and> (i < length out \<and> (\<forall>j<i. obj_offset (fst (out ! j)) \<noteq> Parent (fst (out ! i))) \<longrightarrow>
         snd (out ! i) = 0)
    \<and> map fst out = map the (filter (\<lambda>vo. vo \<noteq> None) seq)
    \<and> map VADTree_line out
         = drop 2 (VADTree_render_task (task\<lparr>VadRoot_traverse := seq\<rparr>))"
proof (intro conjI impI)
  assume "levels (Parent vad) = None"
  then show "VADTree_levels levels (Some vad # rest)
         = (vad, 0) # VADTree_levels (levels(obj_offset vad \<mapsto> 0)) rest"
    by (simp add: Let_def dict_get_def)
next
  assume a: "i < length out \<and> (\<forall>j<i. obj_offset (fst (out ! j)) \<noteq> Parent (fst (out ! i)))"
  then have "i < length (VADTree_levels Map.empty seq)" by (simp add: out)
  from VADTree_levels_parent [OF this] a show "snd (out ! i) = 0"
    unfolding out by blast
next
  show "map fst out = map the (filter (\<lambda>vo. vo \<noteq> None) seq)"
    unfolding out by (rule VADTree_levels_nodes)
next
  show "map VADTree_line out
         = drop 2 (VADTree_render_task (task\<lparr>VadRoot_traverse := seq\<rparr>))"
    by (simp add: VADTree_render_task_def out)
qed

theorem absent_parent_depth_zero_witness:
  "VADTree_levels Map.empty [Some node_C, Some node_B, Some node_A]
     = [(node_C, 0), (node_B, 0), (node_A, 0)]
   \<and> snd (VADTree_levels Map.empty [Some node_C, Some node_B, Some node_A] ! 1) = 0"
proof -
  have C: "Map.empty (Parent node_C) = None" by simp
  have 1: "VADTree_levels Map.empty [Some node_C, Some node_B, Some node_A]
      = (node_C, 0) # VADTree_levels [obj_offset node_C \<mapsto> 0] [Some node_B, Some node_A]"
    using absent_parent_depth_zero [OF refl, of Map.empty node_C "[Some node_B, Some node_A]"] C
    by blast
  have 2: "VADTree_levels [obj_offset node_C \<mapsto> 0] [Some node_B, Some node_A]
      = (node_B, 0) # VADTree_levels ([obj_offset node_C \<mapsto> 0] (obj_offset node_B \<mapsto> 0)) [Some node_A]"
    by (simp add: Let_def dict_get_def node_B_def node_C_def short_vad_def)
  have 3: "VADTree_levels ([obj_offset node_C \<mapsto> 0] (obj_offset node_B \<mapsto> 0)) [Some node_A]
      = [(node_A, 0)]"
    by (simp add: Let_def dict_get_def node_A_def node_B_def node_C_def short_vad_def)
  have all: "VADTree_levels Map.empty [Some node_C, Some node_B, Some node_A]
     = [(node_C, 0), (node_B, 0), (node_A, 0)]"
    by (simp only: 1 2 3)
  have h: "1 < length (VADTree_levels Map.empty [Some node_C, Some node_B, Some node_A])
      \<and> (\<forall>j<1. obj_offset (fst (VADTree_levels Map.empty
                  [Some node_C, Some node_B, Some node_A] ! j))
            \<noteq> Parent (fst (VADTree_levels Map.empty
                  [Some node_C, Some node_B, Some node_A] ! 1)))"
    unfolding all by (simp add: node_B_def node_C_def short_vad_def)
  from absent_parent_depth_zero [OF refl, where seq = "[Some node_C, Some node_B, Some node_A]"
      and i = 1] h
  have "snd (VADTree_levels Map.empty [Some node_C, Some node_B, Some node_A] ! 1) = 0"
    by blast
  with all show ?thesis by blast
qed

section \<open>Properties of the capped traversal\<close>

lemma traverse_Nil: "traverse cap store [] = ([], False)"
  by simp

lemma traverse_null: "traverse cap store (0 # ps) = traverse cap store ps"
  by simp

lemma traverse_zero: "p \<noteq> 0 \<Longrightarrow> traverse 0 store (p # ps) = ([], True)"
  by simp

lemma traverse_bad:
  "p \<noteq> 0 \<Longrightarrow> store p = None \<Longrightarrow>
   traverse (Suc c) store (p # ps)
     = (None # fst (traverse c store ps), snd (traverse c store ps))"
  by (subst traverse.simps(2)) (simp add: split_def Let_def del: traverse.simps)

lemma traverse_node:
  "p \<noteq> 0 \<Longrightarrow> store p = Some vad \<Longrightarrow>
   traverse (Suc c) store (p # ps)
     = (Some vad # fst (traverse c store (LeftChild vad # RightChild vad # ps)),
        snd (traverse c store (LeftChild vad # RightChild vad # ps)))"
  by (subst traverse.simps(2)) (simp add: split_def Let_def del: traverse.simps)

declare traverse.simps [simp del]

lemma traverse_length: "length (fst (traverse cap store stack)) \<le> cap"
proof (induction cap store stack rule: traverse.induct)
  case (1 cap store)
  then show ?case by (simp add: traverse_Nil)
next
  case (2 cap store p ps)
  show ?case
  proof (cases "p = 0")
    case True
    with 2 show ?thesis by (simp add: traverse_null)
  next
    case False
    show ?thesis
    proof (cases cap)
      case 0
      with False show ?thesis by (simp add: traverse_zero)
    next
      case (Suc c)
      show ?thesis
      proof (cases "store p")
        case None
        from 2(2) [OF False Suc None] False None show ?thesis
          by (simp add: Suc traverse_bad)
      next
        case (Some vad)
        from 2(3) [OF False Suc Some] False Some show ?thesis
          by (simp add: Suc traverse_node)
      qed
    qed
  qed
qed

lemma traverse_truncated_length:
  "snd (traverse cap store stack) \<Longrightarrow> length (fst (traverse cap store stack)) = cap"
proof (induction cap store stack rule: traverse.induct)
  case (1 cap store)
  then show ?case by (simp add: traverse_Nil)
next
  case (2 cap store p ps)
  show ?case
  proof (cases "p = 0")
    case True
    with 2(1) 2(4) show ?thesis by (simp add: traverse_null)
  next
    case False
    show ?thesis
    proof (cases cap)
      case 0
      with False show ?thesis by (simp add: traverse_zero)
    next
      case (Suc c)
      show ?thesis
      proof (cases "store p")
        case None
        from 2(4) False None have "snd (traverse c store ps)"
          by (simp add: Suc traverse_bad)
        from 2(2) [OF False Suc None this] False None show ?thesis
          by (simp add: Suc traverse_bad)
      next
        case (Some vad)
        from 2(4) False Some
        have "snd (traverse c store (LeftChild vad # RightChild vad # ps))"
          by (simp add: Suc traverse_node)
        from 2(3) [OF False Suc Some this] False Some show ?thesis
          by (simp add: Suc traverse_node)
      qed
    qed
  qed
qed

lemma traverse_complete:
  "\<not> snd (traverse cap store stack) \<Longrightarrow>
   traverse (cap + k) store stack = traverse cap store stack"
proof (induction cap store stack rule: traverse.induct)
  case (1 cap store)
  then show ?case by (simp add: traverse_Nil)
next
  case (2 cap store p ps)
  show ?case
  proof (cases "p = 0")
    case True
    with 2(1) 2(4) show ?thesis by (simp add: traverse_null)
  next
    case False
    show ?thesis
    proof (cases cap)
      case 0
      with False 2(4) show ?thesis by (simp add: traverse_zero)
    next
      case (Suc c)
      show ?thesis
      proof (cases "store p")
        case None
        from 2(4) False None have "\<not> snd (traverse c store ps)"
          by (simp add: Suc traverse_bad)
        from 2(2) [OF False Suc None this] False None show ?thesis
          by (simp add: Suc traverse_bad)
      next
        case (Some vad)
        from 2(4) False Some
        have "\<not> snd (traverse c store (LeftChild vad # RightChild vad # ps))"
          by (simp add: Suc traverse_node)
        from 2(3) [OF False Suc Some this] False Some show ?thesis
          by (simp add: Suc traverse_node)
      qed
    qed
  qed
qed

lemma traverse_self_loop:
  "root \<noteq> 0 \<Longrightarrow> store root = Some vad \<Longrightarrow> LeftChild vad = root \<Longrightarrow>
   traverse cap store (root # ps) = (replicate cap (Some vad), True)"
proof (induction cap arbitrary: ps)
  case 0
  then show ?case by (simp add: traverse_zero)
next
  case (Suc c)
  from Suc.IH [OF Suc.prems, of "RightChild vad # ps"] Suc.prems show ?case
    by (simp add: traverse_node)
qed


lemma walk_eq:
  "walk cap store root =
     (VADTree_levels Map.empty (fst (traverse cap store [root])),
      snd (traverse cap store [root]))"
  by (simp add: walk_def split_def Let_def)

text \<open>
  Claim C2. The walk is a total function: its recursion ends on every store, also on a
  store whose nodes refer to themselves or to each other. It visits at most \<open>cap\<close>
  nodes; when it reports a truncation it has visited exactly \<open>cap\<close> nodes and returns
  them, and when it reports none a larger cap changes nothing, so the walk was complete.
  On a root whose left child is the root itself the walk returns \<open>cap\<close> times the
  root and reports the truncation.
\<close>

theorem walk_capped:
  "length (fst (traverse cap store stack)) \<le> cap
   \<and> length (fst (walk cap store root)) \<le> cap
   \<and> (snd (walk cap store root) \<longrightarrow> length (fst (traverse cap store [root])) = cap)
   \<and> (\<not> snd (walk cap2 store2 root2) \<longrightarrow>
        walk (cap2 + k) store2 root2 = walk cap2 store2 root2)
   \<and> (root \<noteq> 0 \<and> store root = Some vad \<and> LeftChild vad = root \<longrightarrow>
        traverse cap store [root] = (replicate cap (Some vad), True)
        \<and> map fst (fst (walk cap store root)) = replicate cap vad
        \<and> snd (walk cap store root))"
proof (intro conjI impI)
  show "length (fst (traverse cap store stack)) \<le> cap"
    by (rule traverse_length)
next
  have "length (fst (walk cap store root)) \<le> length (fst (traverse cap store [root]))"
    by (simp add: walk_eq length_VADTree_levels)
  also have "\<dots> \<le> cap" by (rule traverse_length)
  finally show "length (fst (walk cap store root)) \<le> cap" .
next
  assume "snd (walk cap store root)"
  then have "snd (traverse cap store [root])" by (simp add: walk_eq)
  then show "length (fst (traverse cap store [root])) = cap"
    by (rule traverse_truncated_length)
next
  assume "\<not> snd (walk cap2 store2 root2)"
  then have "\<not> snd (traverse cap2 store2 [root2])" by (simp add: walk_eq)
  then have "traverse (cap2 + k) store2 [root2] = traverse cap2 store2 [root2]"
    by (rule traverse_complete)
  then show "walk (cap2 + k) store2 root2 = walk cap2 store2 root2"
    by (simp add: walk_eq)
next
  assume a: "root \<noteq> 0 \<and> store root = Some vad \<and> LeftChild vad = root"
  then show t: "traverse cap store [root] = (replicate cap (Some vad), True)"
    by (simp add: traverse_self_loop)
  have "map fst (fst (walk cap store root))
      = map the (filter (\<lambda>vo. vo \<noteq> None) (replicate cap (Some vad)))"
    by (simp add: walk_eq t VADTree_levels_nodes)
  then show "map fst (fst (walk cap store root)) = replicate cap vad"
    by simp
  show "snd (walk cap store root)" by (simp add: walk_eq t)
qed

theorem walk_capped_witness:
  "map fst (fst (walk 5 store_loop 0xA0)) = replicate 5 node_loop
   \<and> snd (walk 5 store_loop 0xA0)
   \<and> length (fst (traverse 5 store_loop [0xA0])) = 5
   \<and> \<not> snd (walk 3 store_ABC 0xA0)
   \<and> walk (3 + 7) store_ABC 0xA0 = walk 3 store_ABC 0xA0"
proof -
  have a: "(0xA0 :: int) \<noteq> 0 \<and> store_loop 0xA0 = Some node_loop
      \<and> LeftChild node_loop = 0xA0"
    by (simp add: store_loop_def node_loop_def short_vad_def)
  have b: "\<not> snd (walk 3 store_ABC 0xA0)"
    by (simp add: walk_ABC)
  show ?thesis
    using walk_capped [of 5 store_loop "[0xA0]" "0xA0" 3 store_ABC "0xA0" 7 node_loop] a b
    by simp
qed

section \<open>Properties of the region extractor\<close>



lemma files_outfd_write: "files (outfd_write w s) = files w"
  by (simp add: outfd_write_def)

lemma VADDump_render_vad_skip:
  "vo = None \<or> (\<exists>v. vo = Some v \<and> obj_type v = ''_MMVAD'') \<Longrightarrow>
   VADDump_render_vad env self name offset task_space vo w = (None, w)"
  by (auto simp: VADDump_render_vad_def)

lemma VADDump_render_vad_fail:
  "obj_type vad \<noteq> ''_MMVAD'' \<Longrightarrow>
   \<not> can_open_wb env (dump_path (dump_dir self) name offset (get_start vad) (get_end vad)) \<Longrightarrow>
   VADDump_render_vad env self name offset task_space (Some vad) w
     = (Some (IOError (dump_path (dump_dir self) name offset (get_start vad) (get_end vad))), w)"
  by (simp add: VADDump_render_vad_def Let_def)

lemma VADDump_render_vad_ok:
  "obj_type vad \<noteq> ''_MMVAD'' \<Longrightarrow>
   can_open_wb env (dump_path (dump_dir self) name offset (get_start vad) (get_end vad)) \<Longrightarrow>
   fst (VADDump_render_vad env self name offset task_space (Some vad) w) = None
   \<and> files (snd (VADDump_render_vad env self name offset task_space (Some vad) w))
       = (files w)(dump_path (dump_dir self) name offset (get_start vad) (get_end vad)
                     \<mapsto> range_data task_space vad)"
  by (simp add: VADDump_render_vad_def Let_def files_outfd_write)

lemma VADDump_render_vad_error:
  assumes "VADDump_render_vad env self name offset task_space vo w = (Some e, w')"
  shows "w' = w \<and> (\<exists>path. e = IOError path \<and> \<not> can_open_wb env path)"
  using assms
  by (auto simp: VADDump_render_vad_def Let_def split: option.splits if_splits)

lemma VADDump_render_vads_append:
  "VADDump_render_vads env self name offset task_space (xs @ ys) w =
     (case VADDump_render_vads env self name offset task_space xs w of
        (Some e, w') \<Rightarrow> (Some e, w')
      | (None, w') \<Rightarrow> VADDump_render_vads env self name offset task_space ys w')"
proof (induction xs arbitrary: w)
  case Nil
  then show ?case by simp
next
  case (Cons vo xs)
  then show ?case
    by (simp split: prod.splits option.splits)
qed

lemma VADDump_render_vads_error:
  "VADDump_render_vads env self name offset task_space seq w = (Some e, w') \<Longrightarrow>
   \<exists>path. e = IOError path \<and> \<not> can_open_wb env path"
proof (induction seq arbitrary: w)
  case Nil
  then show ?case by simp
next
  case (Cons vo seq)
  obtain r w1 where r: "VADDump_render_vad env self name offset task_space vo w = (r, w1)"
    by (cases "VADDump_render_vad env self name offset task_space vo w")
  show ?case
  proof (cases r)
    case None
    with Cons.prems r have "VADDump_render_vads env self name offset task_space seq w1 = (Some e, w')"
      by simp
    then show ?thesis by (rule Cons.IH)
  next
    case (Some e1)
    with Cons.prems r have "e1 = e" by simp
    with r Some VADDump_render_vad_error show ?thesis by blast
  qed
qed

lemma VADDump_render_error:
  "VADDump_render env self tasks w = (Some e, w') \<Longrightarrow>
   \<exists>path. e = IOError path \<and> \<not> can_open_wb env path"
proof (induction tasks arbitrary: w)
  case Nil
  then show ?case by simp
next
  case (Cons task rest)
  show ?case
  proof (cases "vtop (get_process_address_space task) (task_obj_offset task)")
    case None
    with Cons.prems Cons.IH show ?thesis by (simp add: Let_def)
  next
    case (Some offset)
    let ?w2 = "outfd_write (outfd_write w (''Pid: '' @ format_int_width 6 (UniqueProcessId task)
        @ ''\<newline>'')) stars"
    obtain r w3 where r: "VADDump_render_vads env self (ImageFileName task) offset
        (get_process_address_space task) (VadRoot_traverse task) ?w2 = (r, w3)"
      by (cases "VADDump_render_vads env self (ImageFileName task) offset
        (get_process_address_space task) (VadRoot_traverse task) ?w2")
    show ?thesis
    proof (cases r)
      case None
      with Cons.prems Some r have "VADDump_render env self rest w3 = (Some e, w')"
        by (simp add: Let_def)
      then show ?thesis by (rule Cons.IH)
    next
      case (Some e1)
      with Cons.prems \<open>vtop _ _ = Some offset\<close> r have "e1 = e" by (simp add: Let_def)
      with r Some VADDump_render_vads_error show ?thesis by blast
    qed
  qed
qed

lemma VADDump_render_vads_Cons:
  "VADDump_render_vads env self name offset task_space (vo # rest) w =
     (case fst (VADDump_render_vad env self name offset task_space vo w) of
        Some e \<Rightarrow> VADDump_render_vad env self name offset task_space vo w
      | None \<Rightarrow> VADDump_render_vads env self name offset task_space rest
                  (snd (VADDump_render_vad env self name offset task_space vo w)))"
  by (cases "VADDump_render_vad env self name offset task_space vo w")
     (simp split: option.splits)

lemma VADDump_render_vad_overlay:
  "\<exists>d e. \<forall>w. fst (VADDump_render_vad env self name offset task_space vo w) = e
     \<and> files (snd (VADDump_render_vad env self name offset task_space vo w)) = files w ++ d"
proof (cases "vo = None \<or> (\<exists>v. vo = Some v \<and> obj_type v = ''_MMVAD'')")
  case True
  then have "\<forall>w. fst (VADDump_render_vad env self name offset task_space vo w) = None
     \<and> files (snd (VADDump_render_vad env self name offset task_space vo w))
         = files w ++ Map.empty"
    by (simp add: VADDump_render_vad_skip)
  then show ?thesis by blast
next
  case False
  then obtain vad where vad: "vo = Some vad" "obj_type vad \<noteq> ''_MMVAD''" by auto
  let ?path = "dump_path (dump_dir self) name offset (get_start vad) (get_end vad)"
  show ?thesis
  proof (cases "can_open_wb env ?path")
    case True
    have "\<forall>w. fst (VADDump_render_vad env self name offset task_space vo w) = None
       \<and> files (snd (VADDump_render_vad env self name offset task_space vo w))
           = files w ++ [?path \<mapsto> range_data task_space vad]"
      using VADDump_render_vad_ok [OF vad(2) True] by (simp add: vad(1))
    then show ?thesis by blast
  next
    case False
    have "\<forall>w. fst (VADDump_render_vad env self name offset task_space vo w)
           = Some (IOError ?path)
       \<and> files (snd (VADDump_render_vad env self name offset task_space vo w))
           = files w ++ Map.empty"
      using VADDump_render_vad_fail [OF vad(2) False] by (simp add: vad(1))
    then show ?thesis by blast
  qed
qed

lemma VADDump_render_vads_overlay:
  "\<exists>d e. \<forall>w. fst (VADDump_render_vads env self name offset task_space seq w) = e
     \<and> files (snd (VADDump_render_vads env self name offset task_space seq w)) = files w ++ d"
proof (induction seq)
  case Nil
  have "\<forall>w. fst (VADDump_render_vads env self name offset task_space [] w) = None
     \<and> files (snd (VADDump_render_vads env self name offset task_space [] w))
         = files w ++ Map.empty"
    by simp
  then show ?case by blast
next
  case (Cons vo seq)
  from VADDump_render_vad_overlay obtain d1 e1 where
    1: "\<And>w. fst (VADDump_render_vad env self name offset task_space vo w) = e1"
       "\<And>w. files (snd (VADDump_render_vad env self name offset task_space vo w))
              = files w ++ d1"
    by blast
  from Cons.IH obtain d2 e2 where
    2: "\<And>w. fst (VADDump_render_vads env self name offset task_space seq w) = e2"
       "\<And>w. files (snd (VADDump_render_vads env self name offset task_space seq w))
              = files w ++ d2"
    by blast
  show ?case
  proof (cases e1)
    case None
    have "\<forall>w. fst (VADDump_render_vads env self name offset task_space (vo # seq) w) = e2
       \<and> files (snd (VADDump_render_vads env self name offset task_space (vo # seq) w))
           = files w ++ (d1 ++ d2)"
      by (simp add: VADDump_render_vads_Cons 1 2 None del: VADDump_render_vads.simps)
    then show ?thesis by blast
  next
    case (Some e)
    have "\<forall>w. fst (VADDump_render_vads env self name offset task_space (vo # seq) w) = e1
       \<and> files (snd (VADDump_render_vads env self name offset task_space (vo # seq) w))
           = files w ++ d1"
      by (simp add: VADDump_render_vads_Cons 1 Some del: VADDump_render_vads.simps)
    then show ?thesis by blast
  qed
qed

lemma VADDump_render_Cons_None:
  "vtop (get_process_address_space task) (task_obj_offset task) = None \<Longrightarrow>
   VADDump_render env self (task # rest) w =
     VADDump_render env self rest
       (outfd_write
          (outfd_write w (''Pid: '' @ format_int_width 6 (UniqueProcessId task) @ ''\<newline>''))
          ''Process does not have a valid address space.\<newline>'')"
  by (simp add: Let_def)

lemma VADDump_render_Cons_Some:
  "vtop (get_process_address_space task) (task_obj_offset task) = Some offset \<Longrightarrow>
   VADDump_render env self (task # rest) w =
     (case fst (VADDump_render_vads env self (ImageFileName task) offset
                  (get_process_address_space task) (VadRoot_traverse task)
                  (outfd_write
                     (outfd_write w (''Pid: '' @ format_int_width 6 (UniqueProcessId task)
                        @ ''\<newline>''))
                     stars)) of
        Some e \<Rightarrow>
          VADDump_render_vads env self (ImageFileName task) offset
            (get_process_address_space task) (VadRoot_traverse task)
            (outfd_write
               (outfd_write w (''Pid: '' @ format_int_width 6 (UniqueProcessId task)
                  @ ''\<newline>''))
               stars)
      | None \<Rightarrow>
          VADDump_render env self rest
            (snd (VADDump_render_vads env self (ImageFileName task) offset
                    (get_process_address_space task) (VadRoot_traverse task)
                    (outfd_write
                       (outfd_write w (''Pid: '' @ format_int_width 6 (UniqueProcessId task)
                          @ ''\<newline>''))
                       stars))))"
  by (cases "VADDump_render_vads env self (ImageFileName task) offset
                  (get_process_address_space task) (VadRoot_traverse task)
                  (outfd_write
                     (outfd_write w (''Pid: '' @ format_int_width 6 (UniqueProcessId task)
                        @ ''\<newline>''))
                     stars)")
     (simp add: Let_def split: option.splits)

lemma VADDump_render_overlay:
  "\<exists>d e. \<forall>w. fst (VADDump_render env self tasks w) = e
     \<and> files (snd (VADDump_render env self tasks w)) = files w ++ d"
proof (induction tasks)
  case Nil
  have "\<forall>w. fst (VADDump_render env self [] w) = None
     \<and> files (snd (VADDump_render env self [] w)) = files w ++ Map.empty"
    by simp
  then show ?case by blast
next
  case (Cons task rest)
  from Cons.IH obtain d2 e2 where
    2: "\<And>w. fst (VADDump_render env self rest w) = e2"
       "\<And>w. files (snd (VADDump_render env self rest w)) = files w ++ d2"
    by blast
  show ?case
  proof (cases "vtop (get_process_address_space task) (task_obj_offset task)")
    case None
    have "\<forall>w. fst (VADDump_render env self (task # rest) w) = e2
       \<and> files (snd (VADDump_render env self (task # rest) w)) = files w ++ d2"
      by (simp only: VADDump_render_Cons_None [OF None] 2 files_outfd_write) simp
    then show ?thesis by blast
  next
    case (Some offset)
    from VADDump_render_vads_overlay obtain d1 e1 where
      1: "\<And>w. fst (VADDump_render_vads env self (ImageFileName task) offset
                  (get_process_address_space task) (VadRoot_traverse task) w) = e1"
         "\<And>w. files (snd (VADDump_render_vads env self (ImageFileName task) offset
                  (get_process_address_space task) (VadRoot_traverse task) w)) = files w ++ d1"
      by blast
    show ?thesis
    proof (cases e1)
      case None
      have "\<forall>w. fst (VADDump_render env self (task # rest) w) = e2
         \<and> files (snd (VADDump_render env self (task # rest) w)) = files w ++ (d1 ++ d2)"
        by (simp add: VADDump_render_Cons_Some [OF Some] 1 2 None files_outfd_write
              del: VADDump_render.simps)
      then show ?thesis by blast
    next
      case (Some e)
      have "\<forall>w. fst (VADDump_render env self (task # rest) w) = e1
         \<and> files (snd (VADDump_render env self (task # rest) w)) = files w ++ d1"
        by (simp add: VADDump_render_Cons_Some [OF \<open>vtop _ _ = Some offset\<close>] 1 Some
              files_outfd_write del: VADDump_render.simps)
      then show ?thesis by blast
    qed
  qed
qed

lemma map_add_twice: "(m ++ d) ++ d = m ++ (d :: 'a \<rightharpoonup> 'b)"
  by (rule ext) (simp add: map_add_def split: option.splits)

lemma hex_nat_examples:
  "hex_nat 0 = ''0''" "hex_nat 0x1000 = ''1000''" "hex_nat 0x1005 = ''1005''"
  "hex_nat 0x2000 = ''2000''" "hex_nat 0x2001 = ''2001''"
  by (simp_all add: hex_nat.simps hexdigits_def)
lemma zeros4: "replicate 4 (CHR ''0'') = ''0000''"
  by (simp add: eval_nat_numeral)
lemma format_examples:
  "format_x 0 = ''0''" "format_08x 0x1000 = ''00001000''" "format_08x 0x1005 = ''00001005''"
  "format_08x 0x2000 = ''00002000''" "format_08x 0x2001 = ''00002001''"
  by (simp_all add: format_x_def format_08x_def hex_nat_examples zeros4)
lemma path_small:
  "dump_path (dump_dir example_self) ''a.exe'' 0 (get_start small_vad) (get_end small_vad)
     = ''/tmp/dumps/a.exe.0.00001000-00001005.dmp''"
  by (simp add: dump_path_def os_path_join_def example_self_def small_vad_def short_vad_def
        format_examples)
lemma path_other:
  "dump_path (dump_dir example_self) ''a.exe'' 0 (get_start other_vad) (get_end other_vad)
     = ''/tmp/dumps/a.exe.0.00002000-00002001.dmp''"
  by (simp add: dump_path_def os_path_join_def example_self_def other_vad_def short_vad_def
        format_examples)

lemma data_small: "range_data example_space small_vad = [0x4D, 0x5A, 0x90, 0x90, 0, 0]"
  by code_simp

lemma data_other: "range_data example_space other_vad = [0, 0]"
  by code_simp








lemma small_vad_accepted: "obj_type small_vad \<noteq> ''_MMVAD''"
  by (simp add: small_vad_def short_vad_def)

lemma other_vad_accepted: "obj_type other_vad \<noteq> ''_MMVAD''"
  by (simp add: other_vad_def short_vad_def)

lemma bad_tag_vad_rejected: "obj_type bad_tag_vad = ''_MMVAD''"
  by (simp add: bad_tag_vad_def)

lemma example_task_offset:
  "vtop (get_process_address_space example_task) (task_obj_offset example_task) = Some 0"
  by (simp add: example_task_def example_space_def)

lemma render_vads_example_unwritable:
  "VADDump_render_vads env_first_unwritable example_self (ImageFileName example_task) 0
     (get_process_address_space example_task) (VadRoot_traverse example_task) w
   = (Some (IOError ''/tmp/dumps/a.exe.0.00001000-00001005.dmp''), w)"
proof -
  have closed: "\<not> can_open_wb env_first_unwritable
      (dump_path (dump_dir example_self) ''a.exe'' 0 (get_start small_vad) (get_end small_vad))"
    by (simp add: path_small env_first_unwritable_def)
  have "VADDump_render_vad env_first_unwritable example_self ''a.exe'' 0 example_space
          (Some small_vad) w
        = (Some (IOError ''/tmp/dumps/a.exe.0.00001000-00001005.dmp''), w)"
    using VADDump_render_vad_fail [OF small_vad_accepted closed] by (simp add: path_small)
  then have "VADDump_render_vads env_first_unwritable example_self ''a.exe'' 0 example_space
          [Some small_vad, Some other_vad] w
        = (Some (IOError ''/tmp/dumps/a.exe.0.00001000-00001005.dmp''), w)"
    by (simp add: VADDump_render_vads_Cons del: VADDump_render_vads.simps)
  then show ?thesis
    by (simp add: example_task_def)
qed

lemma render_example_unwritable:
  "VADDump_render env_first_unwritable example_self [example_task] empty_world
     = (Some (IOError ''/tmp/dumps/a.exe.0.00001000-00001005.dmp''),
        outfd_write (outfd_write empty_world
          (''Pid: '' @ format_int_width 6 (UniqueProcessId example_task) @ ''\<newline>'')) stars)"
  by (simp add: VADDump_render_Cons_Some [OF example_task_offset]
        render_vads_example_unwritable del: VADDump_render.simps)

lemma env_ok_open: "can_open_wb env_ok p"
  by (simp add: env_ok_def)

lemma render_example_ok:
  "fst (VADDump_render env_ok example_self [example_task] empty_world) = None
   \<and> files (snd (VADDump_render env_ok example_self [example_task] empty_world))
       = [''/tmp/dumps/a.exe.0.00001000-00001005.dmp'' \<mapsto> [0x4D, 0x5A, 0x90, 0x90, 0, 0],
          ''/tmp/dumps/a.exe.0.00002000-00002001.dmp'' \<mapsto> [0, 0]]"
proof -
  define w2 where "w2 = outfd_write (outfd_write empty_world
          (''Pid: '' @ format_int_width 6 (UniqueProcessId example_task) @ ''\<newline>'')) stars"
  define w3 where "w3 = snd (VADDump_render_vad env_ok example_self ''a.exe'' 0 example_space
          (Some small_vad) w2)"
  define w4 where "w4 = snd (VADDump_render_vad env_ok example_self ''a.exe'' 0 example_space
          (Some other_vad) w3)"
  have f0: "files w2 = Map.empty"
    by (simp add: w2_def files_outfd_write empty_world_def)
  have 1: "fst (VADDump_render_vad env_ok example_self ''a.exe'' 0 example_space
          (Some small_vad) w2) = None"
      "files w3 = [''/tmp/dumps/a.exe.0.00001000-00001005.dmp''
          \<mapsto> [0x4D, 0x5A, 0x90, 0x90, 0, 0]]"
    using VADDump_render_vad_ok [OF small_vad_accepted env_ok_open, of example_self
        "''a.exe''" 0 example_space w2]
    unfolding path_small data_small w3_def f0 by simp_all
  have 2: "fst (VADDump_render_vad env_ok example_self ''a.exe'' 0 example_space
          (Some other_vad) w3) = None"
      "files w4 = [''/tmp/dumps/a.exe.0.00001000-00001005.dmp''
          \<mapsto> [0x4D, 0x5A, 0x90, 0x90, 0, 0],
          ''/tmp/dumps/a.exe.0.00002000-00002001.dmp'' \<mapsto> [0, 0]]"
    using VADDump_render_vad_ok [OF other_vad_accepted env_ok_open, of example_self
        "''a.exe''" 0 example_space w3]
    unfolding path_other data_other w4_def 1(2) by simp_all
  have "VADDump_render_vads env_ok example_self ''a.exe'' 0 example_space
          [Some small_vad, Some other_vad] w2 = (None, w4)"
    using 1(1) 2(1) unfolding w3_def w4_def
    by (simp add: VADDump_render_vads_Cons prod_eq_iff del: VADDump_render_vads.simps(2))
  then have "VADDump_render_vads env_ok example_self (ImageFileName example_task) 0
          (get_process_address_space example_task) (VadRoot_traverse example_task) w2
        = (None, w4)"
    by (simp add: example_task_def)
  then have "VADDump_render env_ok example_self [example_task] empty_world = (None, w4)"
    unfolding w2_def
    by (simp add: VADDump_render_Cons_Some [OF example_task_offset]
          del: VADDump_render.simps(2))
  with 2(2) show ?thesis by simp
qed



text \<open>
  Claim C5, as amended. \<^verbatim>\<open>VADDump.render\<close> has no handler around \<^verbatim>\<open>open\<close>: when the
  destination of a region cannot be opened, the \<^verbatim>\<open>IOError\<close> leaves the loop over the
  regions with the state as it was before that region, whatever regions remain, and it
  leaves the loop over the processes as well. What was written before stays written.
\<close>

theorem open_failure_stops_render:
  "(VADDump_render_vads env self name offset task_space pre w = (None, w1)
      \<and> VADDump_render_vad env self name offset task_space vo w1 = (Some e, w2)
    \<longrightarrow> VADDump_render_vads env self name offset task_space (pre @ vo # rest) w = (Some e, w1)
      \<and> w2 = w1
      \<and> (\<exists>path. e = IOError path \<and> \<not> can_open_wb env path))
   \<and> (vtop (get_process_address_space task) (task_obj_offset task) = Some off
        \<and> VADDump_render_vads env self (ImageFileName task) off
             (get_process_address_space task) (VadRoot_traverse task)
             (outfd_write
                (outfd_write w' (''Pid: '' @ format_int_width 6 (UniqueProcessId task)
                   @ ''\<newline>''))
                stars) = (Some e', w3)
      \<longrightarrow> VADDump_render env self (task # others) w' = (Some e', w3))"
proof (intro conjI impI)
  assume a: "VADDump_render_vads env self name offset task_space pre w = (None, w1)
      \<and> VADDump_render_vad env self name offset task_space vo w1 = (Some e, w2)"
  then have err: "w2 = w1 \<and> (\<exists>path. e = IOError path \<and> \<not> can_open_wb env path)"
    using VADDump_render_vad_error by blast
  then show "w2 = w1" and "\<exists>path. e = IOError path \<and> \<not> can_open_wb env path"
    by simp_all
  from a err show "VADDump_render_vads env self name offset task_space (pre @ vo # rest) w
      = (Some e, w1)"
    by (simp add: VADDump_render_vads_append)
next
  assume a: "vtop (get_process_address_space task) (task_obj_offset task) = Some off
        \<and> VADDump_render_vads env self (ImageFileName task) off
             (get_process_address_space task) (VadRoot_traverse task)
             (outfd_write
                (outfd_write w' (''Pid: '' @ format_int_width 6 (UniqueProcessId task)
                   @ ''\<newline>''))
                stars) = (Some e', w3)"
  then have o: "vtop (get_process_address_space task) (task_obj_offset task) = Some off"
    by simp
  from a show "VADDump_render env self (task # others) w' = (Some e', w3)"
    by (simp add: VADDump_render_Cons_Some [OF o] del: VADDump_render.simps)
qed

theorem open_failure_stops_render_witness:
  "VADDump_render_vads env_first_unwritable example_self ''a.exe'' 0 example_space
       ([Some bad_tag_vad] @ Some small_vad # [Some other_vad]) empty_world
     = (Some (IOError ''/tmp/dumps/a.exe.0.00001000-00001005.dmp''), empty_world)
   \<and> VADDump_render env_first_unwritable example_self (example_task # [example_task])
         empty_world
       = (Some (IOError ''/tmp/dumps/a.exe.0.00001000-00001005.dmp''),
          outfd_write (outfd_write empty_world
            (''Pid: '' @ format_int_width 6 (UniqueProcessId example_task) @ ''\<newline>''))
            stars)"
proof -
  have closed: "\<not> can_open_wb env_first_unwritable
      (dump_path (dump_dir example_self) ''a.exe'' 0 (get_start small_vad) (get_end small_vad))"
    by (simp add: path_small env_first_unwritable_def)
  have h1: "VADDump_render_vads env_first_unwritable example_self ''a.exe'' 0 example_space
       [Some bad_tag_vad] empty_world = (None, empty_world)"
    by (simp add: VADDump_render_vad_skip bad_tag_vad_rejected)
  have h2: "VADDump_render_vad env_first_unwritable example_self ''a.exe'' 0 example_space
       (Some small_vad) empty_world
     = (Some (IOError ''/tmp/dumps/a.exe.0.00001000-00001005.dmp''), empty_world)"
    using VADDump_render_vad_fail [OF small_vad_accepted closed] by (simp add: path_small)
  from open_failure_stops_render [where env = env_first_unwritable and self = example_self
      and name = "''a.exe''" and offset = 0 and task_space = example_space
      and pre = "[Some bad_tag_vad]" and w = empty_world and ?w1.0 = empty_world
      and vo = "Some small_vad" and e = "IOError ''/tmp/dumps/a.exe.0.00001000-00001005.dmp''"
      and ?w2.0 = empty_world and rest = "[Some other_vad]"] h1 h2
  have a: "VADDump_render_vads env_first_unwritable example_self ''a.exe'' 0 example_space
       ([Some bad_tag_vad] @ Some small_vad # [Some other_vad]) empty_world
     = (Some (IOError ''/tmp/dumps/a.exe.0.00001000-00001005.dmp''), empty_world)"
    by blast
  from open_failure_stops_render [where env = env_first_unwritable and self = example_self
      and task = example_task and off = 0 and w' = empty_world
      and e' = "IOError ''/tmp/dumps/a.exe.0.00001000-00001005.dmp''"
      and others = "[example_task]"]
    example_task_offset render_vads_example_unwritable
  have b: "VADDump_render env_first_unwritable example_self (example_task # [example_task])
         empty_world
       = (Some (IOError ''/tmp/dumps/a.exe.0.00001000-00001005.dmp''),
          outfd_write (outfd_write empty_world
            (''Pid: '' @ format_int_width 6 (UniqueProcessId example_task) @ ''\<newline>''))
            stars)"
    by blast
  from a b show ?thesis by blast
qed

text \<open>
  The claim as stated fails: the first region of the process cannot be written, the
  second one could be, and it is never attempted, although it is dumped when the first
  one can be written.
\<close>

theorem sibling_regions_counterexample:
  "VadRoot_traverse example_task = [Some small_vad, Some other_vad]
   \<and> obj_type other_vad \<noteq> ''_MMVAD''
   \<and> can_open_wb env_first_unwritable ''/tmp/dumps/a.exe.0.00002000-00002001.dmp''
   \<and> fst (VADDump_render env_first_unwritable example_self [example_task] empty_world)
       = Some (IOError ''/tmp/dumps/a.exe.0.00001000-00001005.dmp'')
   \<and> files (snd (VADDump_render env_first_unwritable example_self [example_task] empty_world))
         ''/tmp/dumps/a.exe.0.00002000-00002001.dmp'' = None
   \<and> files (snd (VADDump_render env_ok example_self [example_task] empty_world))
         ''/tmp/dumps/a.exe.0.00002000-00002001.dmp'' = Some [0, 0]"
proof -
  have 1: "VadRoot_traverse example_task = [Some small_vad, Some other_vad]"
    by (simp add: example_task_def)
  have 2: "can_open_wb env_first_unwritable ''/tmp/dumps/a.exe.0.00002000-00002001.dmp''"
    by (simp add: env_first_unwritable_def)
  have 3: "fst (VADDump_render env_first_unwritable example_self [example_task] empty_world)
       = Some (IOError ''/tmp/dumps/a.exe.0.00001000-00001005.dmp'')"
    unfolding render_example_unwritable by simp
  have 4: "files (snd (VADDump_render env_first_unwritable example_self [example_task]
      empty_world)) ''/tmp/dumps/a.exe.0.00002000-00002001.dmp'' = None"
    unfolding render_example_unwritable by (simp add: files_outfd_write empty_world_def)
  have 5: "files (snd (VADDump_render env_ok example_self [example_task] empty_world))
         ''/tmp/dumps/a.exe.0.00002000-00002001.dmp'' = Some [0, 0]"
    unfolding render_example_ok [THEN conjunct2] by simp
  from 1 other_vad_accepted 2 3 4 5 show ?thesis by blast
qed

lemma map_add_cases:
  "(m1 ++ d) p = (m2 ++ d) p \<or> ((m1 ++ d) p = m1 p \<and> (m2 ++ d) p = m2 p)"
  by (cases "d p") (simp_all add: map_add_def)

text \<open>
  Claim C8. What a run of \<^verbatim>\<open>render\<close> does to the files is a fixed overlay, determined
  by the snapshot, the configuration and what can be opened, and not by the files that
  were there: two runs end with the same outcome and agree on every path either of them
  writes, and a second run over the result of the first changes no file. The file of a
  region is at the path made of the image name, the offset of the process and the
  bounds, and holds the bytes read for these bounds.
\<close>

theorem dumps_reproducible:
  "(\<exists>d e. \<forall>w. fst (VADDump_render env self tasks w) = e
       \<and> files (snd (VADDump_render env self tasks w)) = files w ++ d)
   \<and> fst (VADDump_render env self tasks w1) = fst (VADDump_render env self tasks w2)
   \<and> (files (snd (VADDump_render env self tasks w1)) p
         = files (snd (VADDump_render env self tasks w2)) p
       \<or> (files (snd (VADDump_render env self tasks w1)) p = files w1 p
           \<and> files (snd (VADDump_render env self tasks w2)) p = files w2 p))
   \<and> fst (VADDump_render env self tasks (snd (VADDump_render env self tasks w1)))
       = fst (VADDump_render env self tasks w1)
   \<and> files (snd (VADDump_render env self tasks (snd (VADDump_render env self tasks w1))))
       = files (snd (VADDump_render env self tasks w1))
   \<and> (obj_type vad \<noteq> ''_MMVAD''
        \<and> can_open_wb env (dump_path (dump_dir self) name offset (get_start vad) (get_end vad))
      \<longrightarrow> files (snd (VADDump_render_vad env self name offset task_space (Some vad) w1))
            = (files w1)(dump_path (dump_dir self) name offset (get_start vad) (get_end vad)
                 \<mapsto> zread task_space (get_start vad) (get_end vad - get_start vad + 1)))"
proof -
  from VADDump_render_overlay obtain d e where
    ov: "\<And>w. fst (VADDump_render env self tasks w) = e"
        "\<And>w. files (snd (VADDump_render env self tasks w)) = files w ++ d"
    by blast
  have 1: "\<exists>d e. \<forall>w. fst (VADDump_render env self tasks w) = e
       \<and> files (snd (VADDump_render env self tasks w)) = files w ++ d"
    by (rule VADDump_render_overlay)
  have 2: "fst (VADDump_render env self tasks w1) = fst (VADDump_render env self tasks w2)"
    by (simp add: ov)
  have 3: "files (snd (VADDump_render env self tasks w1)) p
         = files (snd (VADDump_render env self tasks w2)) p
       \<or> (files (snd (VADDump_render env self tasks w1)) p = files w1 p
           \<and> files (snd (VADDump_render env self tasks w2)) p = files w2 p)"
    unfolding ov by (rule map_add_cases)
  have 4: "fst (VADDump_render env self tasks (snd (VADDump_render env self tasks w1)))
       = fst (VADDump_render env self tasks w1)"
    by (simp add: ov)
  have 5: "files (snd (VADDump_render env self tasks (snd (VADDump_render env self tasks w1))))
       = files (snd (VADDump_render env self tasks w1))"
    unfolding ov by (rule map_add_twice)
  have 6: "files (snd (VADDump_render_vad env self name offset task_space (Some vad) w1))
            = (files w1)(dump_path (dump_dir self) name offset (get_start vad) (get_end vad)
                 \<mapsto> zread task_space (get_start vad) (get_end vad - get_start vad + 1))"
    if "obj_type vad \<noteq> ''_MMVAD''
        \<and> can_open_wb env (dump_path (dump_dir self) name offset (get_start vad) (get_end vad))"
    using that VADDump_render_vad_ok [of vad env self name offset task_space w1]
    by (simp add: range_data_def)
  from 1 2 3 4 5 6 show ?thesis by blast
qed

theorem dumps_reproducible_witness:
  "files (snd (VADDump_render env_ok example_self [example_task]
                 (empty_world\<lparr>files := [''/tmp/dumps/a.exe.0.00002000-00002001.dmp''
                                           \<mapsto> [1, 2, 3]]\<rparr>)))
       ''/tmp/dumps/a.exe.0.00002000-00002001.dmp''
     = Some [0, 0]
   \<and> files (snd (VADDump_render env_ok example_self [example_task]
               (snd (VADDump_render env_ok example_self [example_task] empty_world))))
       = files (snd (VADDump_render env_ok example_self [example_task] empty_world))
   \<and> files (snd (VADDump_render_vad env_ok example_self ''a.exe'' 0 example_space
                    (Some other_vad) empty_world))
       = [''/tmp/dumps/a.exe.0.00002000-00002001.dmp'' \<mapsto> [0, 0]]"
proof -
  let ?stale = "empty_world\<lparr>files := [''/tmp/dumps/a.exe.0.00002000-00002001.dmp''
                                           \<mapsto> [1, 2, 3]]\<rparr>"
  let ?p = "''/tmp/dumps/a.exe.0.00002000-00002001.dmp''"
  note T = dumps_reproducible [where env = env_ok and self = example_self
      and tasks = "[example_task]" and ?w1.0 = empty_world and ?w2.0 = ?stale and p = ?p
      and vad = other_vad and name = "''a.exe''" and offset = 0 and task_space = example_space]
  have h: "obj_type other_vad \<noteq> ''_MMVAD''
        \<and> can_open_wb env_ok (dump_path (dump_dir example_self) ''a.exe'' 0
              (get_start other_vad) (get_end other_vad))"
    by (simp add: other_vad_accepted env_ok_open)
  have first: "files (snd (VADDump_render env_ok example_self [example_task] empty_world)) ?p
      = Some [0, 0]"
    unfolding render_example_ok [THEN conjunct2] by simp
  have "files empty_world ?p = None" by (simp add: empty_world_def)
  with T first have a: "files (snd (VADDump_render env_ok example_self [example_task] ?stale)) ?p
      = Some [0, 0]"
    by (metis option.distinct(1))
  from T have b: "files (snd (VADDump_render env_ok example_self [example_task]
               (snd (VADDump_render env_ok example_self [example_task] empty_world))))
       = files (snd (VADDump_render env_ok example_self [example_task] empty_world))"
    by blast
  from T h have "files (snd (VADDump_render_vad env_ok example_self ''a.exe'' 0 example_space
                    (Some other_vad) empty_world))
       = (files empty_world)(dump_path (dump_dir example_self) ''a.exe'' 0
              (get_start other_vad) (get_end other_vad)
            \<mapsto> zread example_space (get_start other_vad)
                 (get_end other_vad - get_start other_vad + 1))"
    by blast
  then have c: "files (snd (VADDump_render_vad env_ok example_self ''a.exe'' 0 example_space
                    (Some other_vad) empty_world))
       = [''/tmp/dumps/a.exe.0.00002000-00002001.dmp'' \<mapsto> [0, 0]]"
    using data_other by (simp add: path_other range_data_def empty_world_def)
  from a b c show ?thesis by blast
qed

lemma VADDump_init_cases:
  "VADDump_init env d v s =
     (case resolve_dump_dir d s of
        None \<Rightarrow> Inl (PluginError ''Dump directory not specified.'')
      | Some dir \<Rightarrow> if isdir env dir then Inr \<lparr>dump_dir = dir, verbose = v\<rparr>
                    else Inl (NameError ''debug''))"
  by (simp add: VADDump_init_def split: option.splits)

text \<open>
  Claim C9, as amended. The construction fails when no dump directory is given, by the
  argument or by the session, and when the directory is not an existing directory; a run
  then ends with that exception and the state untouched, before any traversal. With a
  directory that exists the construction succeeds. A run whose construction succeeded
  still halts as a whole when a destination cannot be opened, and only then.
\<close>

theorem construction_checks_dump_dir:
  "(resolve_dump_dir d0 s0 = None \<longrightarrow>
      VADDump_init env d0 v s0 = Inl (PluginError ''Dump directory not specified.''))
   \<and> (resolve_dump_dir d1 s1 = Some dir1 \<and> \<not> isdir env dir1 \<longrightarrow>
        VADDump_init env d1 v s1 = Inl (NameError ''debug''))
   \<and> (VADDump_init env d v s = Inl e \<longrightarrow>
        VADDump_run env d v s tasks w = (Some e, w))
   \<and> (resolve_dump_dir d2 s2 = Some dir2 \<and> isdir env dir2 \<longrightarrow>
        VADDump_init env d2 v s2 = Inr \<lparr>dump_dir = dir2, verbose = v\<rparr>)
   \<and> (VADDump_init env d3 v s3 = Inr self
        \<and> fst (VADDump_run env d3 v s3 tasks w) = Some e3 \<longrightarrow>
        (\<exists>path. e3 = IOError path \<and> \<not> can_open_wb env path))"
proof (intro conjI impI)
  assume "resolve_dump_dir d0 s0 = None"
  then show "VADDump_init env d0 v s0 = Inl (PluginError ''Dump directory not specified.'')"
    by (simp add: VADDump_init_cases)
next
  assume "resolve_dump_dir d1 s1 = Some dir1 \<and> \<not> isdir env dir1"
  then show "VADDump_init env d1 v s1 = Inl (NameError ''debug'')"
    by (simp add: VADDump_init_cases)
next
  assume "VADDump_init env d v s = Inl e"
  then show "VADDump_run env d v s tasks w = (Some e, w)"
    by (simp add: VADDump_run_def)
next
  assume "resolve_dump_dir d2 s2 = Some dir2 \<and> isdir env dir2"
  then show "VADDump_init env d2 v s2 = Inr \<lparr>dump_dir = dir2, verbose = v\<rparr>"
    by (simp add: VADDump_init_cases)
next
  assume a: "VADDump_init env d3 v s3 = Inr self
        \<and> fst (VADDump_run env d3 v s3 tasks w) = Some e3"
  then have i: "VADDump_init env d3 v s3 = Inr self"
    and r: "fst (VADDump_run env d3 v s3 tasks w) = Some e3"
    by simp_all
  from r have "fst (VADDump_render env self tasks w) = Some e3"
    unfolding VADDump_run_def i by simp
  then have "VADDump_render env self tasks w = (Some e3, snd (VADDump_render env self tasks w))"
    by (simp add: prod_eq_iff)
  then show "\<exists>path. e3 = IOError path \<and> \<not> can_open_wb env path"
    by (rule VADDump_render_error)
qed

lemma init_example:
  "VADDump_init env_first_unwritable (Some ''/tmp/dumps'') False None = Inr example_self"
  by (simp add: VADDump_init_cases resolve_dump_dir_def env_first_unwritable_def
        example_self_def)

theorem construction_checks_dump_dir_witness:
  "VADDump_init env_first_unwritable None False None
     = Inl (PluginError ''Dump directory not specified.'')
   \<and> VADDump_init env_first_unwritable (Some ''/nonexistent'') False None
       = Inl (NameError ''debug'')
   \<and> VADDump_run env_first_unwritable (Some ''/nonexistent'') False None [example_task]
         empty_world = (Some (NameError ''debug''), empty_world)
   \<and> VADDump_init env_first_unwritable (Some '''') False
         (Some \<lparr>session_dump_dir = Some ''/tmp/dumps''\<rparr>)
       = Inr \<lparr>dump_dir = ''/tmp/dumps'', verbose = False\<rparr>
   \<and> (\<exists>path. IOError ''/tmp/dumps/a.exe.0.00001000-00001005.dmp'' = IOError path
         \<and> \<not> can_open_wb env_first_unwritable path)"
proof -
  note T = construction_checks_dump_dir [where env = env_first_unwritable and v = False
      and ?d0.0 = None and ?s0.0 = None
      and ?d1.0 = "Some ''/nonexistent''" and ?s1.0 = None and ?dir1.0 = "''/nonexistent''"
      and d = "Some ''/nonexistent''" and s = None and e = "NameError ''debug''"
      and tasks = "[example_task]" and w = empty_world
      and ?d2.0 = "Some ''''" and ?s2.0 = "Some \<lparr>session_dump_dir = Some ''/tmp/dumps''\<rparr>"
      and ?dir2.0 = "''/tmp/dumps''"
      and ?d3.0 = "Some ''/tmp/dumps''" and ?s3.0 = None and self = example_self
      and ?e3.0 = "IOError ''/tmp/dumps/a.exe.0.00001000-00001005.dmp''"]
  have h0: "resolve_dump_dir None None = None"
    by (simp add: resolve_dump_dir_def)
  have h1: "resolve_dump_dir (Some ''/nonexistent'') None = Some ''/nonexistent''
      \<and> \<not> isdir env_first_unwritable ''/nonexistent''"
    by (simp add: resolve_dump_dir_def env_first_unwritable_def)
  have h2: "resolve_dump_dir (Some '''') (Some \<lparr>session_dump_dir = Some ''/tmp/dumps''\<rparr>)
        = Some ''/tmp/dumps''
      \<and> isdir env_first_unwritable ''/tmp/dumps''"
    by (simp add: resolve_dump_dir_def env_first_unwritable_def)
  have h3: "VADDump_init env_first_unwritable (Some ''/tmp/dumps'') False None = Inr example_self
      \<and> fst (VADDump_run env_first_unwritable (Some ''/tmp/dumps'') False None [example_task]
                empty_world)
          = Some (IOError ''/tmp/dumps/a.exe.0.00001000-00001005.dmp'')"
    unfolding VADDump_run_def init_example
    by (simp only: sum.case render_example_unwritable fst_conv simp_thms)
  from T h0 have c0: "VADDump_init env_first_unwritable None False None
     = Inl (PluginError ''Dump directory not specified.'')" by blast
  from T h1 have c1: "VADDump_init env_first_unwritable (Some ''/nonexistent'') False None
       = Inl (NameError ''debug'')" by blast
  from T c1 have c2: "VADDump_run env_first_unwritable (Some ''/nonexistent'') False None
      [example_task] empty_world = (Some (NameError ''debug''), empty_world)" by blast
  from T h2 have c3: "VADDump_init env_first_unwritable (Some '''') False
         (Some \<lparr>session_dump_dir = Some ''/tmp/dumps''\<rparr>)
       = Inr \<lparr>dump_dir = ''/tmp/dumps'', verbose = False\<rparr>" by blast
  from T h3 have c4: "\<exists>path. IOError ''/tmp/dumps/a.exe.0.00001000-00001005.dmp''
      = IOError path \<and> \<not> can_open_wb env_first_unwritable path" by blast
  from c0 c1 c2 c3 c4 show ?thesis by blast
qed

text \<open>
  The claim as stated fails: with a valid configuration the construction succeeds, and
  the run still halts, on a destination that cannot be opened.
\<close>

theorem only_halting_condition_counterexample:
  "resolve_dump_dir (Some ''/tmp/dumps'') None = Some ''/tmp/dumps''
   \<and> isdir env_first_unwritable ''/tmp/dumps''
   \<and> VADDump_init env_first_unwritable (Some ''/tmp/dumps'') False None = Inr example_self
   \<and> fst (VADDump_run env_first_unwritable (Some ''/tmp/dumps'') False None [example_task]
             empty_world)
       = Some (IOError ''/tmp/dumps/a.exe.0.00001000-00001005.dmp'')"
proof -
  have 1: "resolve_dump_dir (Some ''/tmp/dumps'') None = Some ''/tmp/dumps''"
    by (simp add: resolve_dump_dir_def)
  have 2: "isdir env_first_unwritable ''/tmp/dumps''"
    by (simp add: env_first_unwritable_def)
  have 3: "fst (VADDump_run env_first_unwritable (Some ''/tmp/dumps'') False None
      [example_task] empty_world)
       = Some (IOError ''/tmp/dumps/a.exe.0.00001000-00001005.dmp'')"
    unfolding VADDump_run_def init_example
    by (simp only: sum.case render_example_unwritable fst_conv)
  from 1 2 init_example 3 show ?thesis by blast
qed

end
